theory Spec2Isabelle
  imports Main "HOL-Library.AList"
begin

section \<open>Data model of the VoiceInteraction component\<close>

text \<open>
  The source is \<^verbatim>\<open>src/unnamed/part_002\<close> (the component with step statuses); line numbers below
  are lines of that file. \<^verbatim>\<open>src/frontend/src/components/VoiceInteraction.tsx\<close> has the same
  handlers without the step statuses.

  The component is a React function component. Every render binds the current values of
  its state variables to constants (\<open>const [isListening, setIsListening] = useState(false)\<close>),
  and every function created during that render closes over those constants. A setter
  changes the stored state, never the constants of a render that already happened. The
  model therefore separates the stored state (\<open>State\<close>) from the constants a closure
  reads (\<open>Render\<close>); refs (\<open>currentStateRef\<close>, \<open>recognitionRef\<close>) are mutable cells
  and are always read from the stored state.
\<close>

datatype ConversationState =
  initial_summary | asking_servings | asking_substitution | ready_to_cook | cooking

text \<open>The result of \<open>parseInt\<close>: an integer or \<open>NaN\<close>.\<close>

datatype jsnum = NaN | Num int

record ParallelTask =
  step_number :: int
  instruction :: string
  estimated_time :: int

record TimerData =
  duration :: jsnum
  step :: jsnum
  timer_type :: string
  step_statuses :: "(string \<times> string) list option"
  warning_time :: jsnum
  parallel_tasks :: "ParallelTask list option"

datatype Sender = user | assistant

record Message =
  msg_id :: string
  msg_type :: Sender
  content :: string
  timestamp :: nat
  msg_state :: "ConversationState option"
  timer :: "TimerData option"

record Toast =
  title :: string
  description :: string
  status :: string

text \<open>The constants of one render that the closures of the component read.\<close>

record Render =
  r_isListening :: bool
  r_isPlaying :: bool
  r_timeRemaining :: "int option"
  r_activeTimer :: "nat option"
  r_currentRecipeId :: string
  r_textInput :: string

datatype ReqKind = Summary | Voice | Text

text \<open>
  An \<open>axios.post\<close> that has not settled yet: the body it sent and the render whose
  closure continues after the \<open>await\<close>.
\<close>

record Request =
  kind :: ReqKind
  req_render :: Render
  req_recipe_id :: string
  req_transcript :: string
  req_current_state :: ConversationState

record State =
  isListening :: bool
  isPlaying :: bool
  currentState :: ConversationState
  currentStateRef :: ConversationState
  initialRecipeId :: string
  currentRecipeId :: string
  messages :: "Message list"
  activeTimer :: "nat option"
  timeRemaining :: "int option"
  activeParallelSteps :: "int list"
  stepStatuses :: "(string \<times> string) list"
  textInput :: string
  transcript :: string
  recognitionRef :: bool
  toasts :: "Toast list"
  sounds :: "string list"
  interval :: "(nat \<times> Render) option"
  nextHandle :: nat
  pending :: "Request list"

text \<open>The headers of a response of the dialogue collaborator that the component reads.\<close>

record Response =
  x_next_state :: "ConversationState option"
  x_updated_recipe_id :: "string option"
  x_full_response :: "string option"
  x_response_text_encoded :: bool
  x_timer_data :: "string option"

text \<open>
  What \<open>JSON.parse\<close> delivers for a timer header, after the handler has applied
  \<open>parseInt\<close> and \<open>String\<close> to its fields.
\<close>

record TimerJson =
  j_duration :: jsnum
  j_type :: string
  j_step :: jsnum
  j_warning_time :: jsnum
  j_parallel_tasks :: "ParallelTask list option"

text \<open>
  The platform functions the component calls: \<open>atob\<close>, \<open>JSON.parse\<close> followed by the
  field reads (\<open>None\<close> is a thrown exception), \<open>String.prototype.trim\<close>, and the
  conversion of a number to a property key for the integers that are not safe integers
  (beyond \<open>2^53\<close> in absolute value), where the digits of a double are not the digits of
  the integer.
\<close>

record Platform =
  atob :: "string \<Rightarrow> string option"
  parseTimer :: "string \<Rightarrow> TimerJson option"
  trim :: "string \<Rightarrow> string"
  unsafeNumberKey :: "int \<Rightarrow> string"

datatype Exn = NetworkError | ParseError

datatype Outcome = Rejected | Responded Response

type_synonym Stamp = "string \<times> nat"


section \<open>Helpers for JavaScript values\<close>

definition render_of :: "State \<Rightarrow> Render" where
  "render_of s =
     \<lparr>r_isListening = isListening s, r_isPlaying = isPlaying s,
      r_timeRemaining = timeRemaining s, r_activeTimer = activeTimer s,
      r_currentRecipeId = currentRecipeId s, r_textInput = textInput s\<rparr>"

text \<open>The render that precedes the mount effect: every \<open>useState\<close> still has its initial value.\<close>

definition firstRender :: "string \<Rightarrow> Render" where
  "firstRender rid =
     \<lparr>r_isListening = False, r_isPlaying = False, r_timeRemaining = None,
      r_activeTimer = None, r_currentRecipeId = rid, r_textInput = []\<rparr>"

text \<open>\<open>!timeRemaining\<close>: \<open>null\<close> and \<open>0\<close> are falsy.\<close>

definition falsy :: "int option \<Rightarrow> bool" where
  "falsy t = (case t of None \<Rightarrow> True | Some n \<Rightarrow> n = 0)"

fun digitsOf :: "nat \<Rightarrow> string" where
  "digitsOf n =
     (if n < 10 then [char_of (48 + n)]
      else digitsOf (n div 10) @ [char_of (48 + n mod 10)])"

declare digitsOf.simps [simp del]

text \<open>
  The property key a number is converted to in \<open>{[timer.step]: ...}\<close>: \<open>NaN\<close>, the
  decimal digits of a safe integer, and what the platform prints for any other number
  (rounded digits above \<open>2^53\<close>, exponent form from \<open>1e21\<close>).
\<close>

definition keyOf :: "Platform \<Rightarrow> jsnum \<Rightarrow> string" where
  "keyOf P n =
     (case n of
        NaN \<Rightarrow> ''NaN''
      | Num i \<Rightarrow>
          (if \<bar>i\<bar> < 9007199254740992
           then (if i < 0 then CHR ''-'' # digitsOf (nat (- i)) else digitsOf (nat i))
           else unsafeNumberKey P i))"

text \<open>
  \<open>!textInput.trim()\<close>: the text the platform's \<open>trim\<close> returns is empty. Which
  characters count as white space is the platform's business.
\<close>

definition blank :: "Platform \<Rightarrow> string \<Rightarrow> bool" where
  "blank P t = (trim P t = [])"

definition toast :: "string \<Rightarrow> string \<Rightarrow> string \<Rightarrow> State \<Rightarrow> State" where
  "toast ti de st s = s\<lparr>toasts := toasts s @ [\<lparr>title = ti, description = de, status = st\<rparr>]\<rparr>"

definition playSound :: "string \<Rightarrow> State \<Rightarrow> State" where
  "playSound f s = s\<lparr>sounds := sounds s @ [f]\<rparr>"

definition decodeBase64Text :: "Platform \<Rightarrow> string \<Rightarrow> string" where
  "decodeBase64Text P encodedText =
     (case atob P encodedText of Some t \<Rightarrow> t | None \<Rightarrow> encodedText)"

section \<open>Message log, capture and playback\<close>

text \<open>
  \<open>addMessage\<close> (lines 856-865), the only caller of \<open>setMessages\<close>. \<open>Math.random\<close> and
  \<open>new Date()\<close> are inputs: the stamp of the message.
\<close>

definition addMessage ::
  "Sender \<Rightarrow> string \<Rightarrow> ConversationState option \<Rightarrow> TimerData option \<Rightarrow> Stamp \<Rightarrow> State \<Rightarrow> State" where
  "addMessage ty c st tm stamp s =
     s\<lparr>messages := messages s @
        [\<lparr>msg_id = fst stamp, msg_type = ty, content = c, timestamp = snd stamp,
          msg_state = st, timer = tm\<rparr>]\<rparr>"

text \<open>
  \<open>startListening\<close> (lines 921-930) and \<open>stopListening\<close> (lines 932-937).
  \<open>startThrows\<close> says whether \<open>recognitionRef.current.start()\<close> throws; the \<open>catch\<close> only
  logs, and \<open>setIsListening(true)\<close> is skipped.
\<close>

definition startListening :: "Render \<Rightarrow> bool \<Rightarrow> State \<Rightarrow> State" where
  "startListening r startThrows s =
     (if recognitionRef s \<and> \<not> r_isListening r \<and> \<not> r_isPlaying r
      then (if startThrows then s else s\<lparr>isListening := True\<rparr>)
      else s)"

definition stopListening :: "Render \<Rightarrow> State \<Rightarrow> State" where
  "stopListening r s =
     (if recognitionRef s \<and> r_isListening r then s\<lparr>isListening := False\<rparr> else s)"

text \<open>
  \<open>playAudioResponse\<close> (lines 939-950). \<open>audioRef.current\<close> is set by the mount effect and
  never cleared.
\<close>

definition playAudioResponse :: "Render \<Rightarrow> State \<Rightarrow> State" where
  "playAudioResponse r s =
     (let s1 = (if r_isListening r then stopListening r s else s)
      in s1\<lparr>isPlaying := True\<rparr>)"

text \<open>
  The handlers the mount effect installs: \<open>handleAudioEnd\<close> (lines 576-583),
  \<open>recognition.onerror\<close> (lines 542-556) and \<open>recognition.onend\<close> (lines 558-560).
\<close>

definition handleAudioEnd :: "Render \<Rightarrow> bool \<Rightarrow> State \<Rightarrow> State" where
  "handleAudioEnd r startThrows s =
     (let s1 = s\<lparr>isPlaying := False\<rparr>
      in if currentStateRef s1 \<noteq> initial_summary \<and> falsy (r_timeRemaining r)
         then startListening r startThrows s1
         else s1)"

definition onerror :: "Render \<Rightarrow> string \<Rightarrow> bool \<Rightarrow> State \<Rightarrow> State" where
  "onerror r err startThrows s =
     (let s1 = s\<lparr>isListening := False\<rparr>
      in if err = ''no-speech''
         then startListening r startThrows s1
         else toast ''Error'' ''Failed to recognize speech. Please try again.'' ''error'' s1)"

definition onend :: "State \<Rightarrow> State" where
  "onend s = s\<lparr>isListening := False\<rparr>"

section \<open>Countdown\<close>

text \<open>
  The callback of \<open>window.setInterval\<close> (lines 658-697): the updater passed to \<open>setTimeRemaining\<close> reads
  the stored value \<open>prev\<close>; \<open>startListening\<close> is the one of the render in which the
  interval was created.
\<close>

definition tick :: "bool \<Rightarrow> State \<Rightarrow> State" where
  "tick startThrows s =
     (case interval s of
        None \<Rightarrow> s
      | Some (h, r) \<Rightarrow>
          (case timeRemaining s of
             None \<Rightarrow> s
           | Some prev \<Rightarrow>
               (let newTime = prev - 1;
                    s1 = (if newTime = 20
                          then toast ''Timer Warning'' ''20 seconds remaining!'' ''warning''
                                 (playSound ''/warning.mp3'' s)
                          else s)
                in if newTime \<le> 0
                   then (startListening r startThrows
                          (toast ''Timer Complete!'' ''Your timer has finished.'' ''success''
                             (playSound ''/timer-done.mp3'' s1)))\<lparr>timeRemaining := None\<rparr>
                   else s1\<lparr>timeRemaining := Some newTime\<rparr>)))"

definition clearInterval :: "nat \<Rightarrow> State \<Rightarrow> State" where
  "clearInterval h s =
     (case interval s of
        None \<Rightarrow> s
      | Some (h', r) \<Rightarrow> if h' = h then s\<lparr>interval := None\<rparr> else s)"

section \<open>Effects\<close>

text \<open>
  The effects on \<open>[currentState]\<close> (lines 501-503), on \<open>[messages, timeRemaining]\<close>
  (lines 620-637), on \<open>[timeRemaining]\<close> (lines 640-706) and on \<open>[messages]\<close> (lines 832-854).
  The effects that derive \<open>completedSteps\<close> and \<open>currentStepNumber\<close> from the text of the
  last message write state that nothing below reads, and are left out.
\<close>

definition stateRefEffect :: "State \<Rightarrow> State" where
  "stateRefEffect s = s\<lparr>currentStateRef := currentState s\<rparr>"

definition parallelStepsEffect :: "State \<Rightarrow> State" where
  "parallelStepsEffect s =
     (if messages s \<noteq> [] then
        (case (case timer (last (messages s)) of
                 None \<Rightarrow> None
               | Some t \<Rightarrow> parallel_tasks t) of
           Some ts \<Rightarrow> s\<lparr>activeParallelSteps := map step_number ts\<rparr>
         | None \<Rightarrow> if falsy (timeRemaining s) then s\<lparr>activeParallelSteps := []\<rparr> else s)
      else s)"

text \<open>
  The effect on \<open>[timeRemaining]\<close>. Before it runs again React runs the cleanup the
  previous run returned, which clears the interval that run created.
\<close>

definition timerEffect :: "State \<Rightarrow> State" where
  "timerEffect s0 =
     (let s = s0\<lparr>interval := None\<rparr>
      in case timeRemaining s of
           Some t \<Rightarrow>
             if t \<le> 0 then
               (let s1 = s\<lparr>timeRemaining := None\<rparr>
                in case activeTimer s of
                     None \<Rightarrow> s1
                   | Some h \<Rightarrow> if h \<noteq> 0 then (clearInterval h s1)\<lparr>activeTimer := None\<rparr> else s1)
             else
               s\<lparr>interval := Some (nextHandle s, render_of s0),
                 activeTimer := Some (nextHandle s),
                 nextHandle := Suc (nextHandle s)\<rparr>
         | None \<Rightarrow>
             (case activeTimer s of
                None \<Rightarrow> s
              | Some h \<Rightarrow> if h \<noteq> 0 then (clearInterval h s)\<lparr>activeTimer := None\<rparr> else s))"

text \<open>
  The effect on \<open>[messages]\<close> that marks the step of the last message's timer.
  \<open>typeof timer.step === 'number'\<close> holds for every \<open>jsnum\<close>, \<open>NaN\<close> included.
  The object \<open>Record<string, string>\<close> is an association list read with \<open>map_of\<close>;
  the spread \<open>{...prev, ...timer.step_statuses}\<close> is \<open>AList.merge\<close> and a computed
  key is \<open>AList.update\<close>.
\<close>

definition stepStatusesEffect :: "Platform \<Rightarrow> State \<Rightarrow> State" where
  "stepStatusesEffect P s =
     (if messages s \<noteq> [] then
        (case timer (last (messages s)) of
           None \<Rightarrow> s
         | Some t \<Rightarrow>
             (case step_statuses t of
                Some ss \<Rightarrow>
                  s\<lparr>stepStatuses :=
                      AList.update (keyOf P (step t)) ''in_progress'' (AList.merge (stepStatuses s) ss)\<rparr>
              | None \<Rightarrow>
                  s\<lparr>stepStatuses := AList.update (keyOf P (step t)) ''in_progress'' (stepStatuses s)\<rparr>))
      else s)"

text \<open>
  One commit: the effects whose dependencies changed between the state \<open>old\<close> before
  the handler and the state \<open>s\<close> after it, in the order of their declaration. The
  setter calls of one handler are applied together and rendered once.
\<close>

definition effects :: "Platform \<Rightarrow> State \<Rightarrow> State \<Rightarrow> State" where
  "effects P old s =
     (let s1 = (if currentState s \<noteq> currentState old then stateRefEffect s else s);
          s2 = (if messages s \<noteq> messages old \<or> timeRemaining s \<noteq> timeRemaining old
                then parallelStepsEffect s1 else s1);
          s3 = (if timeRemaining s \<noteq> timeRemaining old then timerEffect s2 else s2);
          s4 = (if messages s \<noteq> messages old then stepStatusesEffect P s3 else s3)
      in s4)"

text \<open>
  The timer effect may itself call \<open>setTimeRemaining(null)\<close>; that renders once more
  and runs the effects on \<open>timeRemaining\<close> again.
\<close>

definition commit :: "Platform \<Rightarrow> State \<Rightarrow> State \<Rightarrow> State" where
  "commit P old s =
     (let s' = effects P old s
      in if timeRemaining s' \<noteq> timeRemaining s then effects P s s' else s')"


section \<open>Conversation turns\<close>

definition newRequest :: "ReqKind \<Rightarrow> Render \<Rightarrow> string \<Rightarrow> ConversationState \<Rightarrow> Request" where
  "newRequest k r t st =
     \<lparr>kind = k, req_render = r, req_recipe_id = r_currentRecipeId r,
      req_transcript = t, req_current_state = st\<rparr>"

text \<open>\<open>handleVoiceInput\<close> up to its \<open>await\<close> (lines 952-980).\<close>

definition handleVoiceInput :: "Render \<Rightarrow> string \<Rightarrow> Stamp \<Rightarrow> State \<Rightarrow> State" where
  "handleVoiceInput r t stamp s =
     (let currentStateValue = currentStateRef s;
          s1 = addMessage user t None None stamp s;
          s2 = s1\<lparr>isPlaying := True\<rparr>
      in s2\<lparr>pending := pending s2 @ [newRequest Voice r t currentStateValue]\<rparr>)"

text \<open>\<open>handleTextSubmit\<close> up to its \<open>await\<close> (lines 1078-1103).\<close>

definition handleTextSubmit :: "Platform \<Rightarrow> Render \<Rightarrow> Stamp \<Rightarrow> State \<Rightarrow> State" where
  "handleTextSubmit P r stamp s =
     (if blank P (r_textInput r) then s
      else
        (let s1 = addMessage user (r_textInput r) None None stamp s;
             s2 = s1\<lparr>isPlaying := True\<rparr>
         in s2\<lparr>pending := pending s2 @ [newRequest Text r (r_textInput r) (currentStateRef s)]\<rparr>))"

definition responseTextOf :: "Platform \<Rightarrow> Response \<Rightarrow> string option" where
  "responseTextOf P resp =
     (case x_full_response resp of
        None \<Rightarrow> None
      | Some e \<Rightarrow>
          if e \<noteq> [] \<and> x_response_text_encoded resp then Some (decodeBase64Text P e)
          else Some e)"

definition parseTimerData :: "Platform \<Rightarrow> string \<Rightarrow> Exn + TimerJson" where
  "parseTimerData P timerDataJson =
     (case parseTimer P (decodeBase64Text P timerDataJson) of
        None \<Rightarrow> Inl ParseError
      | Some j \<Rightarrow> Inr j)"

text \<open>
  The block \<open>if (timerDataJson) { try { ... } catch (e) { console.error(...) } }\<close>
  (lines 1006-1035 and 1123-1143).
  \<open>handleVoiceInput\<close> copies \<open>parallel_tasks\<close> into the timer (\<open>withTasks\<close>),
  \<open>handleTextSubmit\<close> does not. Neither sets \<open>step_statuses\<close>.
\<close>

definition timerOfHeader ::
  "bool \<Rightarrow> Platform \<Rightarrow> string option \<Rightarrow> State \<Rightarrow> TimerData option \<times> State" where
  "timerOfHeader withTasks P hdr s =
     (case hdr of
        None \<Rightarrow> (None, s)
      | Some timerDataJson \<Rightarrow>
          if timerDataJson = [] then (None, s)
          else
            (case parseTimerData P timerDataJson of
               Inl e \<Rightarrow> (None, s)
             | Inr j \<Rightarrow>
                 (let t = \<lparr>duration = j_duration j, step = j_step j, timer_type = j_type j,
                           step_statuses = None, warning_time = j_warning_time j,
                           parallel_tasks = (if withTasks then j_parallel_tasks j else None)\<rparr>
                  in (Some t,
                      case duration t of
                        Num d \<Rightarrow> if d > 0 then s\<lparr>timeRemaining := Some d\<rparr>
                                 else s\<lparr>timeRemaining := None\<rparr>
                      | NaN \<Rightarrow> s\<lparr>timeRemaining := None\<rparr>))))"

text \<open>
  The part of the \<open>try\<close> block after the \<open>await\<close> that both handlers share
  (lines 982-1050 and 1105-1154). The callback \<open>onRecipeUpdate\<close> belongs to the parent.
\<close>

definition applyResponse ::
  "bool \<Rightarrow> Platform \<Rightarrow> Render \<Rightarrow> Response \<Rightarrow> Stamp \<Rightarrow> State \<Rightarrow> State" where
  "applyResponse withTasks P r resp stamp s =
     (let nextState = x_next_state resp;
          responseText = responseTextOf P resp;
          s1 = (case x_updated_recipe_id resp of
                  None \<Rightarrow> s
                | Some rid \<Rightarrow> if rid \<noteq> [] then s\<lparr>currentRecipeId := rid\<rparr> else s);
          (tm, s2) = timerOfHeader withTasks P (x_timer_data resp) s1;
          s3 = (case responseText of
                  None \<Rightarrow> s2
                | Some txt \<Rightarrow>
                    if txt \<noteq> [] then addMessage assistant txt nextState tm stamp s2 else s2);
          s4 = (case nextState of
                  None \<Rightarrow> s3
                | Some ns \<Rightarrow> if ns \<noteq> currentStateRef s then s3\<lparr>currentState := ns\<rparr> else s3)
      in playAudioResponse r s4)"

definition voiceTry :: "Platform \<Rightarrow> Render \<Rightarrow> Outcome \<Rightarrow> Stamp \<Rightarrow> State \<Rightarrow> Exn + State" where
  "voiceTry P r out stamp s =
     (case out of
        Rejected \<Rightarrow> Inl NetworkError
      | Responded resp \<Rightarrow> Inr (applyResponse True P r resp stamp s))"

definition textTry :: "Platform \<Rightarrow> Render \<Rightarrow> Outcome \<Rightarrow> Stamp \<Rightarrow> State \<Rightarrow> Exn + State" where
  "textTry P r out stamp s =
     (case out of
        Rejected \<Rightarrow> Inl NetworkError
      | Responded resp \<Rightarrow> Inr ((applyResponse False P r resp stamp s)\<lparr>textInput := []\<rparr>))"

definition summaryTry :: "Platform \<Rightarrow> Render \<Rightarrow> Outcome \<Rightarrow> Stamp \<Rightarrow> State \<Rightarrow> Exn + State" where
  "summaryTry P r out stamp s =
     (case out of
        Rejected \<Rightarrow> Inl NetworkError
      | Responded resp \<Rightarrow>
          Inr (let nextState = x_next_state resp;
                   responseText = responseTextOf P resp;
                   s1 = (case nextState of None \<Rightarrow> s | Some ns \<Rightarrow> s\<lparr>currentState := ns\<rparr>);
                   s2 = (case responseText of
                           None \<Rightarrow> s1
                         | Some txt \<Rightarrow>
                             if txt \<noteq> [] then addMessage assistant txt nextState None stamp s1
                             else s1)
               in playAudioResponse r s2))"

text \<open>
  The handlers after their \<open>await\<close>, with the \<open>catch\<close> block (lines 1051-1060, 1156-1165
  and, for \<open>getRecipeSummary\<close>, 891-918).
\<close>

definition handleVoiceInput_settled ::
  "Platform \<Rightarrow> Render \<Rightarrow> Outcome \<Rightarrow> Stamp \<Rightarrow> State \<Rightarrow> State" where
  "handleVoiceInput_settled P r out stamp s =
     (case voiceTry P r out stamp s of
        Inr s' \<Rightarrow> s'
      | Inl e \<Rightarrow>
          (toast ''Error'' ''Failed to process voice input. Please try again.'' ''error'' s)
            \<lparr>isPlaying := False\<rparr>)"

definition handleTextSubmit_settled ::
  "Platform \<Rightarrow> Render \<Rightarrow> Outcome \<Rightarrow> Stamp \<Rightarrow> State \<Rightarrow> State" where
  "handleTextSubmit_settled P r out stamp s =
     (case textTry P r out stamp s of
        Inr s' \<Rightarrow> s'
      | Inl e \<Rightarrow>
          (toast ''Error'' ''Failed to process text input. Please try again.'' ''error'' s)
            \<lparr>isPlaying := False\<rparr>)"

definition getRecipeSummary_settled ::
  "Platform \<Rightarrow> Render \<Rightarrow> Outcome \<Rightarrow> Stamp \<Rightarrow> State \<Rightarrow> State" where
  "getRecipeSummary_settled P r out stamp s =
     (case summaryTry P r out stamp s of
        Inr s' \<Rightarrow> s'
      | Inl e \<Rightarrow> toast ''Error'' ''Failed to get recipe summary'' ''error'' s)"

text \<open>The \<open>i\<close>-th outstanding request settles and its handler continues.\<close>

definition settle :: "Platform \<Rightarrow> nat \<Rightarrow> Outcome \<Rightarrow> Stamp \<Rightarrow> State \<Rightarrow> State" where
  "settle P i out stamp s =
     (if i < length (pending s) then
        (let q = pending s ! i;
             s1 = s\<lparr>pending := take i (pending s) @ drop (Suc i) (pending s)\<rparr>
         in case kind q of
              Summary \<Rightarrow> getRecipeSummary_settled P (req_render q) out stamp s1
            | Voice \<Rightarrow> handleVoiceInput_settled P (req_render q) out stamp s1
            | Text \<Rightarrow> handleTextSubmit_settled P (req_render q) out stamp s1)
      else s)"

section \<open>Events\<close>

text \<open>
  The handlers of the recogniser and of the audio element are created by the mount effect
  (dependency list \<open>[]\<close>) and never replaced: they read the constants of the first render.
  The button (disabled while \<open>isPlaying\<close>) and the form use the handlers of the current
  render. \<open>RecipeFetched\<close> is the answer of the recipe store inside \<open>getRecipeSteps\<close>,
  of which only \<open>setStepStatuses(metadata.step_statuses)\<close> is kept.
\<close>

datatype Event =
    ClickListenButton bool
  | OnResult string Stamp
  | OnError string bool
  | OnEnd
  | AudioEnded bool
  | Tick bool
  | ChangeText string
  | SubmitText Stamp
  | Settle nat Outcome Stamp
  | RecipeFetched "(string \<times> string) list option"

fun handler :: "Platform \<Rightarrow> Event \<Rightarrow> State \<Rightarrow> State" where
  "handler P (ClickListenButton th) s =
     (let r = render_of s
      in if r_isPlaying r then s
         else if r_isListening r then stopListening r s
         else startListening r th s)"
| "handler P (OnResult t stamp) s =
     handleVoiceInput (firstRender (initialRecipeId s)) t stamp (s\<lparr>transcript := t\<rparr>)"
| "handler P (OnError err th) s = onerror (firstRender (initialRecipeId s)) err th s"
| "handler P OnEnd s = onend s"
| "handler P (AudioEnded th) s = handleAudioEnd (firstRender (initialRecipeId s)) th s"
| "handler P (Tick th) s = tick th s"
| "handler P (ChangeText t) s = s\<lparr>textInput := t\<rparr>"
| "handler P (SubmitText stamp) s = handleTextSubmit P (render_of s) stamp s"
| "handler P (Settle i out stamp) s = settle P i out stamp s"
| "handler P (RecipeFetched meta) s =
     (case meta of None \<Rightarrow> s | Some ss \<Rightarrow> s\<lparr>stepStatuses := ss\<rparr>)"

definition dispatch :: "Platform \<Rightarrow> Event \<Rightarrow> State \<Rightarrow> State" where
  "dispatch P e s = commit P s (handler P e s)"

fun run :: "Platform \<Rightarrow> Event list \<Rightarrow> State \<Rightarrow> State" where
  "run P [] s = s"
| "run P (e # es) s = run P es (dispatch P e s)"

text \<open>
  The component after its first render and its mount effect: \<open>getRecipeSummary\<close> has sent
  its request from the closure of the first render.
\<close>

definition mounted :: "bool \<Rightarrow> string \<Rightarrow> State" where
  "mounted supported rid =
     \<lparr>isListening = False, isPlaying = False, currentState = initial_summary,
      currentStateRef = initial_summary, initialRecipeId = rid, currentRecipeId = rid,
      messages = [], activeTimer = None, timeRemaining = None, activeParallelSteps = [],
      stepStatuses = [], textInput = [], transcript = [], recognitionRef = supported,
      toasts = [], sounds = [], interval = None, nextHandle = 1,
      pending = [newRequest Summary (firstRender rid) [] initial_summary]\<rparr>"

section \<open>Pieces of the response handler\<close>

text \<open>
  The statements of \<open>applyResponse\<close> one by one, named so that lemmas can speak about
  them: the timer object built from the parsed header, the value \<open>timeRemaining\<close> gets
  from a parsed duration, and the three conditional updates around the timer block.
\<close>

definition timerOfJson :: "bool \<Rightarrow> TimerJson \<Rightarrow> TimerData" where
  "timerOfJson withTasks j =
     \<lparr>duration = j_duration j, step = j_step j, timer_type = j_type j,
      step_statuses = None, warning_time = j_warning_time j,
      parallel_tasks = (if withTasks then j_parallel_tasks j else None)\<rparr>"

definition remainingOf :: "jsnum \<Rightarrow> int option" where
  "remainingOf n = (case n of NaN \<Rightarrow> None | Num d \<Rightarrow> if 0 < d then Some d else None)"

definition withRecipe :: "Response \<Rightarrow> State \<Rightarrow> State" where
  "withRecipe resp s =
     (case x_updated_recipe_id resp of
        None \<Rightarrow> s
      | Some rid \<Rightarrow> if rid \<noteq> [] then s\<lparr>currentRecipeId := rid\<rparr> else s)"

definition withNextState :: "Response \<Rightarrow> ConversationState \<Rightarrow> State \<Rightarrow> State" where
  "withNextState resp c s =
     (case x_next_state resp of
        None \<Rightarrow> s
      | Some ns \<Rightarrow> if ns \<noteq> c then s\<lparr>currentState := ns\<rparr> else s)"

definition withAssistant ::
  "Platform \<Rightarrow> Response \<Rightarrow> TimerData option \<Rightarrow> Stamp \<Rightarrow> State \<Rightarrow> State" where
  "withAssistant P resp tm stamp s =
     (case responseTextOf P resp of
        None \<Rightarrow> s
      | Some txt \<Rightarrow>
          if txt \<noteq> [] then addMessage assistant txt (x_next_state resp) tm stamp s else s)"

section \<open>Reading the state\<close>

text \<open>The record \<open>addMessage\<close> appends.\<close>

definition messageOf ::
  "Sender \<times> string \<times> ConversationState option \<times> TimerData option \<times> Stamp \<Rightarrow> Message" where
  "messageOf a =
     (case a of (ty, c, st, tm, stamp) \<Rightarrow>
        \<lparr>msg_id = fst stamp, msg_type = ty, content = c, timestamp = snd stamp,
         msg_state = st, timer = tm\<rparr>)"

text \<open>A sequence of calls of \<open>addMessage\<close>.\<close>

fun addMessages ::
  "(Sender \<times> string \<times> ConversationState option \<times> TimerData option \<times> Stamp) list
     \<Rightarrow> State \<Rightarrow> State" where
  "addMessages [] s = s"
| "addMessages ((ty, c, st, tm, stamp) # xs) s = addMessages xs (addMessage ty c st tm stamp s)"

text \<open>
  The status the dashboard shows for a key: \<open>stepStatuses[stepNumber] || 'not_started'\<close>.
\<close>

definition statusOf :: "State \<Rightarrow> string \<Rightarrow> string" where
  "statusOf s k =
     (case map_of (stepStatuses s) k of
        None \<Rightarrow> ''not_started''
      | Some v \<Rightarrow> if v = [] then ''not_started'' else v)"

text \<open>The order \<open>not_started < in_progress < completed\<close> on status strings.\<close>

definition statusRank :: "string \<Rightarrow> nat" where
  "statusRank v = (if v = ''completed'' then 2 else if v = ''in_progress'' then 1 else 0)"

definition errorToast :: "string \<Rightarrow> Toast" where
  "errorToast de = \<lparr>title = ''Error'', description = de, status = ''error''\<rparr>"

section \<open>A session used for concrete runs\<close>

text \<open>
  Three timer headers as the backend sends them (base64 of JSON), and a platform that
  decodes exactly these and the base64 of \<open>oops\<close>, parses exactly the three JSON texts
  and throws on anything else.
\<close>

definition jsonA :: string where
  \<open>jsonA = ''{"duration":3,"type":"cooking","step":3,"warning_time":20,"parallel_tasks":[{"step_number":2,"instruction":"Chop garlic","estimated_time":120}]}''\<close>

definition headerA :: string where
  "headerA = ''eyJkdXJhdGlvbiI6MywidHlwZSI6ImNvb2tpbmciLCJzdGVwIjozLCJ3YXJuaW5nX3RpbWUiOjIwLCJwYXJhbGxlbF90YXNrcyI6W3sic3RlcF9udW1iZXIiOjIsImluc3RydWN0aW9uIjoiQ2hvcCBnYXJsaWMiLCJlc3RpbWF0ZWRfdGltZSI6MTIwfV19''"

definition timerA :: TimerJson where
  "timerA = \<lparr>j_duration = Num 3, j_type = ''cooking'', j_step = Num 3, j_warning_time = Num 20,
             j_parallel_tasks =
               Some [\<lparr>step_number = 2, instruction = ''Chop garlic'', estimated_time = 120\<rparr>]\<rparr>"

definition jsonB :: string where
  \<open>jsonB = ''{"duration":25,"type":"cooking","step":1,"warning_time":22}''\<close>

definition headerB :: string where
  "headerB = ''eyJkdXJhdGlvbiI6MjUsInR5cGUiOiJjb29raW5nIiwic3RlcCI6MSwid2FybmluZ190aW1lIjoyMn0=''"

definition timerB :: TimerJson where
  "timerB = \<lparr>j_duration = Num 25, j_type = ''cooking'', j_step = Num 1, j_warning_time = Num 22,
             j_parallel_tasks = None\<rparr>"

definition jsonC :: string where
  \<open>jsonC = ''{"duration":0,"type":"stop","step":3,"warning_time":0}''\<close>

definition headerC :: string where
  "headerC = ''eyJkdXJhdGlvbiI6MCwidHlwZSI6InN0b3AiLCJzdGVwIjozLCJ3YXJuaW5nX3RpbWUiOjB9''"

definition timerC :: TimerJson where
  "timerC = \<lparr>j_duration = Num 0, j_type = ''stop'', j_step = Num 3, j_warning_time = Num 0,
             j_parallel_tasks = None\<rparr>"

text \<open>
  The texts of the session are ASCII. Of the code points \<open>trim\<close> strips (white space
  and line terminators), a character of this model can hold 9 to 13, 32 and 160; the
  session's \<open>trim\<close> strips those from both ends. No number of the session is beyond
  the safe integers, so its table of keys for such numbers is empty.
\<close>

definition isSpaceChar :: "char \<Rightarrow> bool" where
  "isSpaceChar c = (c = CHR 0x09 \<or> c = CHR 0x0A \<or> c = CHR 0x0B \<or> c = CHR 0x0C
                    \<or> c = CHR 0x0D \<or> c = CHR '' '' \<or> c = CHR 0xA0)"

definition stripSpaces :: "string \<Rightarrow> string" where
  "stripSpaces t = rev (dropWhile isSpaceChar (rev (dropWhile isSpaceChar t)))"

definition P0 :: Platform where
  "P0 =
     \<lparr>atob = (\<lambda>x. if x = headerA then Some jsonA
                   else if x = headerB then Some jsonB
                   else if x = headerC then Some jsonC
                   else if x = ''b29wcw=='' then Some ''oops''
                   else None),
      parseTimer = (\<lambda>x. if x = jsonA then Some timerA
                         else if x = jsonB then Some timerB
                         else if x = jsonC then Some timerC
                         else None),
      trim = stripSpaces,
      unsafeNumberKey = (\<lambda>i. [])\<rparr>"

definition response :: "ConversationState \<Rightarrow> string \<Rightarrow> string option \<Rightarrow> Response" where
  "response ns txt hdr =
     \<lparr>x_next_state = Some ns, x_updated_recipe_id = None, x_full_response = Some txt,
      x_response_text_encoded = False, x_timer_data = hdr\<rparr>"

definition respond :: "ConversationState \<Rightarrow> string \<Rightarrow> string option \<Rightarrow> Outcome" where
  "respond ns txt hdr = Responded (response ns txt hdr)"

text \<open>
  The opening narration arrives and is played to its end, the user speaks, and the
  recogniser delivers the result and ends.
\<close>

definition openingEvents :: "Event list" where
  "openingEvents =
     [Settle 0 (respond cooking ''Welcome. Say start when you are ready.'' None) (''m1'', 1),
      AudioEnded False,
      OnResult ''start'' (''m2'', 2),
      OnEnd]"

text \<open>The component, mounted in a browser with speech recognition, for recipe \<open>r1\<close>.\<close>

definition session :: State where
  "session = mounted True ''r1''"

text \<open>The session when the answer to the user's first utterance is outstanding.\<close>

definition awaitingAnswer :: State where
  "awaitingAnswer = run P0 openingEvents session"

text \<open>The answer starts a three-second timer for step 3, with step 2 as a parallel task.\<close>

definition timerStarted :: State where
  "timerStarted =
     dispatch P0 (Settle 0 (respond cooking ''Timer started'' (Some headerA)) (''m3'', 3))
       awaitingAnswer"

text \<open>The user clicks the listen button before the opening narration has arrived.\<close>

definition earlyClick :: State where
  "earlyClick =
     run P0 [ClickListenButton False,
             Settle 0 (respond cooking ''Welcome.'' None) (''m1'', 1)] session"

text \<open>The recogniser has delivered the user's utterance and has not ended yet.\<close>

definition resultDelivered :: State where
  "resultDelivered =
     run P0 [Settle 0 (respond cooking ''Welcome.'' None) (''m1'', 1),
             AudioEnded False,
             OnResult ''start'' (''m2'', 2)] session"

text \<open>The user types a text and sends it, once and twice; or the first request fails.\<close>

definition typed :: State where
  "typed = dispatch P0 (ChangeText ''add salt'') session"

definition submitted :: State where
  "submitted = dispatch P0 (SubmitText (''m1'', 1)) typed"

definition submittedTwice :: State where
  "submittedTwice = dispatch P0 (SubmitText (''m2'', 2)) submitted"

definition submitFailed :: State where
  "submitFailed = dispatch P0 (Settle 1 Rejected (''m2'', 2)) submitted"

text \<open>The recipe store reports step 3 as completed; then the timer for step 3 arrives.\<close>

definition stepDone :: State where
  "stepDone = dispatch P0 (RecipeFetched (Some [(''3'', ''completed'')])) awaitingAnswer"

definition stepRestarted :: State where
  "stepRestarted =
     dispatch P0 (Settle 0 (respond cooking ''Timer started'' (Some headerA)) (''m3'', 3)) stepDone"




text \<open>
  The audio of the answer that started the three-second timer ends; the timer reaches
  its last second; the timer runs out.
\<close>

definition audioEnded :: State where
  "audioEnded = dispatch P0 (AudioEnded False) timerStarted"

definition lastSecond :: State where
  "lastSecond = run P0 [Tick False, Tick False] audioEnded"

definition timerCompleted :: State where
  "timerCompleted = dispatch P0 (Tick False) lastSecond"

text \<open>The user asks to stop the timer while it runs.\<close>

definition stopRequested :: State where
  "stopRequested = dispatch P0 (OnResult ''stop the timer'' (''m4'', 4)) timerStarted"


text \<open>The answer carries the JSON of the timer as it is, not its base64.\<close>

definition rawJsonAnswered :: State where
  "rawJsonAnswered =
     dispatch P0 (Settle 0 (respond cooking ''Timer started'' (Some jsonA)) (''m3'', 3))
       awaitingAnswer"

section \<open>Counting warnings\<close>

text \<open>How often the warning sound was played and the warning notification shown.\<close>

definition warningsPlayed :: "State \<Rightarrow> nat" where
  "warningsPlayed s = count_list (sounds s) ''/warning.mp3''"

definition warningsShown :: "State \<Rightarrow> nat" where
  "warningsShown s = count_list (map title (toasts s)) ''Timer Warning''"

section \<open>What each operation leaves alone\<close>

lemma toast_frame [simp]:
  "isListening (toast a b c s) = isListening s"
  "isPlaying (toast a b c s) = isPlaying s"
  "currentState (toast a b c s) = currentState s"
  "currentStateRef (toast a b c s) = currentStateRef s"
  "initialRecipeId (toast a b c s) = initialRecipeId s"
  "currentRecipeId (toast a b c s) = currentRecipeId s"
  "messages (toast a b c s) = messages s"
  "activeTimer (toast a b c s) = activeTimer s"
  "timeRemaining (toast a b c s) = timeRemaining s"
  "activeParallelSteps (toast a b c s) = activeParallelSteps s"
  "stepStatuses (toast a b c s) = stepStatuses s"
  "textInput (toast a b c s) = textInput s"
  "transcript (toast a b c s) = transcript s"
  "recognitionRef (toast a b c s) = recognitionRef s"
  "sounds (toast a b c s) = sounds s"
  "interval (toast a b c s) = interval s"
  "nextHandle (toast a b c s) = nextHandle s"
  "pending (toast a b c s) = pending s"
  by (simp_all add: toast_def)

lemma playSound_frame [simp]:
  "isListening (playSound f s) = isListening s"
  "isPlaying (playSound f s) = isPlaying s"
  "currentState (playSound f s) = currentState s"
  "currentStateRef (playSound f s) = currentStateRef s"
  "initialRecipeId (playSound f s) = initialRecipeId s"
  "currentRecipeId (playSound f s) = currentRecipeId s"
  "messages (playSound f s) = messages s"
  "activeTimer (playSound f s) = activeTimer s"
  "timeRemaining (playSound f s) = timeRemaining s"
  "activeParallelSteps (playSound f s) = activeParallelSteps s"
  "stepStatuses (playSound f s) = stepStatuses s"
  "textInput (playSound f s) = textInput s"
  "transcript (playSound f s) = transcript s"
  "recognitionRef (playSound f s) = recognitionRef s"
  "toasts (playSound f s) = toasts s"
  "interval (playSound f s) = interval s"
  "nextHandle (playSound f s) = nextHandle s"
  "pending (playSound f s) = pending s"
  by (simp_all add: playSound_def)

lemma addMessage_frame [simp]:
  "isListening (addMessage ty c st tm stamp s) = isListening s"
  "isPlaying (addMessage ty c st tm stamp s) = isPlaying s"
  "currentState (addMessage ty c st tm stamp s) = currentState s"
  "currentStateRef (addMessage ty c st tm stamp s) = currentStateRef s"
  "initialRecipeId (addMessage ty c st tm stamp s) = initialRecipeId s"
  "currentRecipeId (addMessage ty c st tm stamp s) = currentRecipeId s"
  "activeTimer (addMessage ty c st tm stamp s) = activeTimer s"
  "timeRemaining (addMessage ty c st tm stamp s) = timeRemaining s"
  "activeParallelSteps (addMessage ty c st tm stamp s) = activeParallelSteps s"
  "stepStatuses (addMessage ty c st tm stamp s) = stepStatuses s"
  "textInput (addMessage ty c st tm stamp s) = textInput s"
  "transcript (addMessage ty c st tm stamp s) = transcript s"
  "recognitionRef (addMessage ty c st tm stamp s) = recognitionRef s"
  "toasts (addMessage ty c st tm stamp s) = toasts s"
  "sounds (addMessage ty c st tm stamp s) = sounds s"
  "interval (addMessage ty c st tm stamp s) = interval s"
  "nextHandle (addMessage ty c st tm stamp s) = nextHandle s"
  "pending (addMessage ty c st tm stamp s) = pending s"
  by (simp_all add: addMessage_def)

lemma startListening_frame [simp]:
  "isPlaying (startListening r th s) = isPlaying s"
  "currentState (startListening r th s) = currentState s"
  "currentStateRef (startListening r th s) = currentStateRef s"
  "initialRecipeId (startListening r th s) = initialRecipeId s"
  "currentRecipeId (startListening r th s) = currentRecipeId s"
  "messages (startListening r th s) = messages s"
  "activeTimer (startListening r th s) = activeTimer s"
  "timeRemaining (startListening r th s) = timeRemaining s"
  "activeParallelSteps (startListening r th s) = activeParallelSteps s"
  "stepStatuses (startListening r th s) = stepStatuses s"
  "textInput (startListening r th s) = textInput s"
  "transcript (startListening r th s) = transcript s"
  "recognitionRef (startListening r th s) = recognitionRef s"
  "toasts (startListening r th s) = toasts s"
  "sounds (startListening r th s) = sounds s"
  "interval (startListening r th s) = interval s"
  "nextHandle (startListening r th s) = nextHandle s"
  "pending (startListening r th s) = pending s"
  by (simp_all add: startListening_def)

lemma stopListening_frame [simp]:
  "isPlaying (stopListening r s) = isPlaying s"
  "currentState (stopListening r s) = currentState s"
  "currentStateRef (stopListening r s) = currentStateRef s"
  "initialRecipeId (stopListening r s) = initialRecipeId s"
  "currentRecipeId (stopListening r s) = currentRecipeId s"
  "messages (stopListening r s) = messages s"
  "activeTimer (stopListening r s) = activeTimer s"
  "timeRemaining (stopListening r s) = timeRemaining s"
  "activeParallelSteps (stopListening r s) = activeParallelSteps s"
  "stepStatuses (stopListening r s) = stepStatuses s"
  "textInput (stopListening r s) = textInput s"
  "transcript (stopListening r s) = transcript s"
  "recognitionRef (stopListening r s) = recognitionRef s"
  "toasts (stopListening r s) = toasts s"
  "sounds (stopListening r s) = sounds s"
  "interval (stopListening r s) = interval s"
  "nextHandle (stopListening r s) = nextHandle s"
  "pending (stopListening r s) = pending s"
  by (simp_all add: stopListening_def)

lemma playAudioResponse_frame [simp]:
  "currentState (playAudioResponse r s) = currentState s"
  "currentStateRef (playAudioResponse r s) = currentStateRef s"
  "initialRecipeId (playAudioResponse r s) = initialRecipeId s"
  "currentRecipeId (playAudioResponse r s) = currentRecipeId s"
  "messages (playAudioResponse r s) = messages s"
  "activeTimer (playAudioResponse r s) = activeTimer s"
  "timeRemaining (playAudioResponse r s) = timeRemaining s"
  "activeParallelSteps (playAudioResponse r s) = activeParallelSteps s"
  "stepStatuses (playAudioResponse r s) = stepStatuses s"
  "textInput (playAudioResponse r s) = textInput s"
  "transcript (playAudioResponse r s) = transcript s"
  "recognitionRef (playAudioResponse r s) = recognitionRef s"
  "toasts (playAudioResponse r s) = toasts s"
  "sounds (playAudioResponse r s) = sounds s"
  "interval (playAudioResponse r s) = interval s"
  "nextHandle (playAudioResponse r s) = nextHandle s"
  "pending (playAudioResponse r s) = pending s"
  by (simp_all add: playAudioResponse_def Let_def)

lemma clearInterval_frame [simp]:
  "isListening (clearInterval h s) = isListening s"
  "isPlaying (clearInterval h s) = isPlaying s"
  "currentState (clearInterval h s) = currentState s"
  "currentStateRef (clearInterval h s) = currentStateRef s"
  "initialRecipeId (clearInterval h s) = initialRecipeId s"
  "currentRecipeId (clearInterval h s) = currentRecipeId s"
  "messages (clearInterval h s) = messages s"
  "activeTimer (clearInterval h s) = activeTimer s"
  "timeRemaining (clearInterval h s) = timeRemaining s"
  "activeParallelSteps (clearInterval h s) = activeParallelSteps s"
  "stepStatuses (clearInterval h s) = stepStatuses s"
  "textInput (clearInterval h s) = textInput s"
  "transcript (clearInterval h s) = transcript s"
  "recognitionRef (clearInterval h s) = recognitionRef s"
  "toasts (clearInterval h s) = toasts s"
  "sounds (clearInterval h s) = sounds s"
  "nextHandle (clearInterval h s) = nextHandle s"
  "pending (clearInterval h s) = pending s"
  by (simp_all add: clearInterval_def split: option.split prod.split)

lemma stateRefEffect_frame [simp]:
  "isListening (stateRefEffect s) = isListening s"
  "isPlaying (stateRefEffect s) = isPlaying s"
  "currentState (stateRefEffect s) = currentState s"
  "initialRecipeId (stateRefEffect s) = initialRecipeId s"
  "currentRecipeId (stateRefEffect s) = currentRecipeId s"
  "messages (stateRefEffect s) = messages s"
  "activeTimer (stateRefEffect s) = activeTimer s"
  "timeRemaining (stateRefEffect s) = timeRemaining s"
  "activeParallelSteps (stateRefEffect s) = activeParallelSteps s"
  "stepStatuses (stateRefEffect s) = stepStatuses s"
  "textInput (stateRefEffect s) = textInput s"
  "transcript (stateRefEffect s) = transcript s"
  "recognitionRef (stateRefEffect s) = recognitionRef s"
  "toasts (stateRefEffect s) = toasts s"
  "sounds (stateRefEffect s) = sounds s"
  "interval (stateRefEffect s) = interval s"
  "nextHandle (stateRefEffect s) = nextHandle s"
  "pending (stateRefEffect s) = pending s"
  by (simp_all add: stateRefEffect_def)

lemma parallelStepsEffect_frame [simp]:
  "isListening (parallelStepsEffect s) = isListening s"
  "isPlaying (parallelStepsEffect s) = isPlaying s"
  "currentState (parallelStepsEffect s) = currentState s"
  "currentStateRef (parallelStepsEffect s) = currentStateRef s"
  "initialRecipeId (parallelStepsEffect s) = initialRecipeId s"
  "currentRecipeId (parallelStepsEffect s) = currentRecipeId s"
  "messages (parallelStepsEffect s) = messages s"
  "activeTimer (parallelStepsEffect s) = activeTimer s"
  "timeRemaining (parallelStepsEffect s) = timeRemaining s"
  "stepStatuses (parallelStepsEffect s) = stepStatuses s"
  "textInput (parallelStepsEffect s) = textInput s"
  "transcript (parallelStepsEffect s) = transcript s"
  "recognitionRef (parallelStepsEffect s) = recognitionRef s"
  "toasts (parallelStepsEffect s) = toasts s"
  "sounds (parallelStepsEffect s) = sounds s"
  "interval (parallelStepsEffect s) = interval s"
  "nextHandle (parallelStepsEffect s) = nextHandle s"
  "pending (parallelStepsEffect s) = pending s"
  by (simp_all add: parallelStepsEffect_def split: option.split)

lemma timerEffect_frame [simp]:
  "isListening (timerEffect s) = isListening s"
  "isPlaying (timerEffect s) = isPlaying s"
  "currentState (timerEffect s) = currentState s"
  "currentStateRef (timerEffect s) = currentStateRef s"
  "initialRecipeId (timerEffect s) = initialRecipeId s"
  "currentRecipeId (timerEffect s) = currentRecipeId s"
  "messages (timerEffect s) = messages s"
  "activeParallelSteps (timerEffect s) = activeParallelSteps s"
  "stepStatuses (timerEffect s) = stepStatuses s"
  "textInput (timerEffect s) = textInput s"
  "transcript (timerEffect s) = transcript s"
  "recognitionRef (timerEffect s) = recognitionRef s"
  "toasts (timerEffect s) = toasts s"
  "sounds (timerEffect s) = sounds s"
  "pending (timerEffect s) = pending s"
  by (simp_all add: timerEffect_def Let_def split: option.split)

lemma stepStatusesEffect_frame [simp]:
  "isListening (stepStatusesEffect P s) = isListening s"
  "isPlaying (stepStatusesEffect P s) = isPlaying s"
  "currentState (stepStatusesEffect P s) = currentState s"
  "currentStateRef (stepStatusesEffect P s) = currentStateRef s"
  "initialRecipeId (stepStatusesEffect P s) = initialRecipeId s"
  "currentRecipeId (stepStatusesEffect P s) = currentRecipeId s"
  "messages (stepStatusesEffect P s) = messages s"
  "activeTimer (stepStatusesEffect P s) = activeTimer s"
  "timeRemaining (stepStatusesEffect P s) = timeRemaining s"
  "activeParallelSteps (stepStatusesEffect P s) = activeParallelSteps s"
  "textInput (stepStatusesEffect P s) = textInput s"
  "transcript (stepStatusesEffect P s) = transcript s"
  "recognitionRef (stepStatusesEffect P s) = recognitionRef s"
  "toasts (stepStatusesEffect P s) = toasts s"
  "sounds (stepStatusesEffect P s) = sounds s"
  "interval (stepStatusesEffect P s) = interval s"
  "nextHandle (stepStatusesEffect P s) = nextHandle s"
  "pending (stepStatusesEffect P s) = pending s"
  by (simp_all add: stepStatusesEffect_def split: option.split)

lemma withRecipe_frame [simp]:
  "isListening (withRecipe resp s) = isListening s"
  "isPlaying (withRecipe resp s) = isPlaying s"
  "currentState (withRecipe resp s) = currentState s"
  "currentStateRef (withRecipe resp s) = currentStateRef s"
  "initialRecipeId (withRecipe resp s) = initialRecipeId s"
  "messages (withRecipe resp s) = messages s"
  "activeTimer (withRecipe resp s) = activeTimer s"
  "timeRemaining (withRecipe resp s) = timeRemaining s"
  "activeParallelSteps (withRecipe resp s) = activeParallelSteps s"
  "stepStatuses (withRecipe resp s) = stepStatuses s"
  "textInput (withRecipe resp s) = textInput s"
  "transcript (withRecipe resp s) = transcript s"
  "recognitionRef (withRecipe resp s) = recognitionRef s"
  "toasts (withRecipe resp s) = toasts s"
  "sounds (withRecipe resp s) = sounds s"
  "interval (withRecipe resp s) = interval s"
  "nextHandle (withRecipe resp s) = nextHandle s"
  "pending (withRecipe resp s) = pending s"
  by (simp_all add: withRecipe_def split: option.split)

lemma withNextState_frame [simp]:
  "isListening (withNextState resp c s) = isListening s"
  "isPlaying (withNextState resp c s) = isPlaying s"
  "currentStateRef (withNextState resp c s) = currentStateRef s"
  "initialRecipeId (withNextState resp c s) = initialRecipeId s"
  "currentRecipeId (withNextState resp c s) = currentRecipeId s"
  "messages (withNextState resp c s) = messages s"
  "activeTimer (withNextState resp c s) = activeTimer s"
  "timeRemaining (withNextState resp c s) = timeRemaining s"
  "activeParallelSteps (withNextState resp c s) = activeParallelSteps s"
  "stepStatuses (withNextState resp c s) = stepStatuses s"
  "textInput (withNextState resp c s) = textInput s"
  "transcript (withNextState resp c s) = transcript s"
  "recognitionRef (withNextState resp c s) = recognitionRef s"
  "toasts (withNextState resp c s) = toasts s"
  "sounds (withNextState resp c s) = sounds s"
  "interval (withNextState resp c s) = interval s"
  "nextHandle (withNextState resp c s) = nextHandle s"
  "pending (withNextState resp c s) = pending s"
  by (simp_all add: withNextState_def split: option.split)

lemma withAssistant_frame [simp]:
  "isListening (withAssistant P resp tm stamp s) = isListening s"
  "isPlaying (withAssistant P resp tm stamp s) = isPlaying s"
  "currentState (withAssistant P resp tm stamp s) = currentState s"
  "currentStateRef (withAssistant P resp tm stamp s) = currentStateRef s"
  "initialRecipeId (withAssistant P resp tm stamp s) = initialRecipeId s"
  "currentRecipeId (withAssistant P resp tm stamp s) = currentRecipeId s"
  "activeTimer (withAssistant P resp tm stamp s) = activeTimer s"
  "timeRemaining (withAssistant P resp tm stamp s) = timeRemaining s"
  "activeParallelSteps (withAssistant P resp tm stamp s) = activeParallelSteps s"
  "stepStatuses (withAssistant P resp tm stamp s) = stepStatuses s"
  "textInput (withAssistant P resp tm stamp s) = textInput s"
  "transcript (withAssistant P resp tm stamp s) = transcript s"
  "recognitionRef (withAssistant P resp tm stamp s) = recognitionRef s"
  "toasts (withAssistant P resp tm stamp s) = toasts s"
  "sounds (withAssistant P resp tm stamp s) = sounds s"
  "interval (withAssistant P resp tm stamp s) = interval s"
  "nextHandle (withAssistant P resp tm stamp s) = nextHandle s"
  "pending (withAssistant P resp tm stamp s) = pending s"
  by (simp_all add: withAssistant_def split: option.split)

section \<open>The message log only grows\<close>

lemma messages_handleAudioEnd [simp]: "messages (handleAudioEnd r th s) = messages s"
  by (simp add: handleAudioEnd_def Let_def)

lemma messages_onerror [simp]: "messages (onerror r e th s) = messages s"
  by (simp add: onerror_def Let_def)

lemma messages_tick [simp]: "messages (tick th s) = messages s"
  by (simp add: tick_def Let_def split: option.split prod.split)

lemma messages_effects [simp]: "messages (effects P old s) = messages s"
  by (simp add: effects_def Let_def)

lemma messages_commit [simp]: "messages (commit P old s) = messages s"
  by (simp add: commit_def Let_def)

lemma messages_addMessage [simp]:
  "messages (addMessage ty c st tm stamp s) = messages s @ [messageOf (ty, c, st, tm, stamp)]"
  by (simp add: addMessage_def messageOf_def)

lemma messages_addMessages: "messages (addMessages xs s) = messages s @ map messageOf xs"
  by (induction xs s rule: addMessages.induct) simp_all

lemma messages_timerOfHeader:
  "timerOfHeader w P h s = (tm, s') \<Longrightarrow> messages s' = messages s"
  by (auto simp add: timerOfHeader_def Let_def split: option.splits sum.splits jsnum.splits if_splits)

lemma messages_applyResponse:
  "\<exists>ys. messages (applyResponse w P r resp stamp s) = messages s @ ys"
proof -
  define s1 where
    "s1 = (case x_updated_recipe_id resp of
             None \<Rightarrow> s
           | Some rid \<Rightarrow> if rid \<noteq> [] then s\<lparr>currentRecipeId := rid\<rparr> else s)"
  obtain tm s2 where t: "timerOfHeader w P (x_timer_data resp) s1 = (tm, s2)"
    by (cases "timerOfHeader w P (x_timer_data resp) s1") blast
  have "messages s1 = messages s"
    by (simp add: s1_def split: option.split)
  with messages_timerOfHeader [OF t] have "messages s2 = messages s"
    by simp
  then show ?thesis
    using t by (simp add: applyResponse_def Let_def s1_def [symmetric] split: option.split)
qed

lemma messages_handleVoiceInput_settled:
  "\<exists>ys. messages (handleVoiceInput_settled P r out stamp s) = messages s @ ys"
  by (cases out) (simp_all add: handleVoiceInput_settled_def voiceTry_def messages_applyResponse)

lemma messages_handleTextSubmit_settled:
  "\<exists>ys. messages (handleTextSubmit_settled P r out stamp s) = messages s @ ys"
  by (cases out) (simp_all add: handleTextSubmit_settled_def textTry_def messages_applyResponse)

lemma messages_getRecipeSummary_settled:
  "\<exists>ys. messages (getRecipeSummary_settled P r out stamp s) = messages s @ ys"
  by (cases out)
    (simp_all add: getRecipeSummary_settled_def summaryTry_def Let_def split: option.split)

lemma messages_settle: "\<exists>ys. messages (settle P i out stamp s) = messages s @ ys"
proof (cases "i < length (pending s)")
  case False
  then show ?thesis by (simp add: settle_def)
next
  case True
  define s1 where "s1 = s\<lparr>pending := take i (pending s) @ drop (Suc i) (pending s)\<rparr>"
  have m: "messages s1 = messages s" by (simp add: s1_def)
  show ?thesis
  proof (cases "kind (pending s ! i)")
    case Summary
    with True show ?thesis
      using messages_getRecipeSummary_settled [of P "req_render (pending s ! i)" out stamp s1] m
      by (simp add: settle_def Let_def s1_def)
  next
    case Voice
    with True show ?thesis
      using messages_handleVoiceInput_settled [of P "req_render (pending s ! i)" out stamp s1] m
      by (simp add: settle_def Let_def s1_def)
  next
    case Text
    with True show ?thesis
      using messages_handleTextSubmit_settled [of P "req_render (pending s ! i)" out stamp s1] m
      by (simp add: settle_def Let_def s1_def)
  qed
qed

lemma messages_handler: "\<exists>ys. messages (handler P e s) = messages s @ ys"
  by (cases e)
    (simp_all add: Let_def onend_def handleVoiceInput_def handleTextSubmit_def messages_settle
      split: option.split)

lemma messages_dispatch: "\<exists>ys. messages (dispatch P e s) = messages s @ ys"
  by (simp add: dispatch_def messages_handler)

lemma messages_run: "\<exists>ys. messages (run P es s) = messages s @ ys"
proof (induction es arbitrary: s)
  case Nil
  show ?case by simp
next
  case (Cons e es)
  obtain ys where a: "messages (dispatch P e s) = messages s @ ys"
    using messages_dispatch by blast
  obtain zs where b: "messages (run P es (dispatch P e s)) = messages (dispatch P e s) @ zs"
    using Cons.IH by blast
  show ?case using a b by simp
qed

text \<open>
  Claim C8. \<open>addMessage\<close> is the only writer of the message log and it appends: after
  \<open>N\<close> calls on the empty log of a freshly mounted component the log has exactly \<open>N\<close>
  entries, the entries are the arguments of the calls in the order of the calls, and
  whatever events the component handles afterwards (capture, playback, ticks, submits,
  responses, failures), the log it had before is still there, unchanged and in place,
  as a prefix of the new log.
\<close>

theorem C8_message_log_append_only:
  "length (messages (addMessages xs (mounted supported rid))) = length xs
   \<and> messages (addMessages xs (mounted supported rid)) = map messageOf xs
   \<and> messages (addMessages xs s) = messages s @ map messageOf xs
   \<and> (\<exists>ys. messages (run P es s) = messages s @ ys)"
  by (simp add: messages_addMessages messages_run mounted_def)

section \<open>Effects after a handler\<close>

lemma effects_frame [simp]:
  "isListening (effects P old s) = isListening s"
  "isPlaying (effects P old s) = isPlaying s"
  "currentState (effects P old s) = currentState s"
  "initialRecipeId (effects P old s) = initialRecipeId s"
  "currentRecipeId (effects P old s) = currentRecipeId s"
  "textInput (effects P old s) = textInput s"
  "transcript (effects P old s) = transcript s"
  "recognitionRef (effects P old s) = recognitionRef s"
  "toasts (effects P old s) = toasts s"
  "sounds (effects P old s) = sounds s"
  "pending (effects P old s) = pending s"
  by (simp_all add: effects_def Let_def)

lemma commit_frame [simp]:
  "isListening (commit P old s) = isListening s"
  "isPlaying (commit P old s) = isPlaying s"
  "currentState (commit P old s) = currentState s"
  "initialRecipeId (commit P old s) = initialRecipeId s"
  "currentRecipeId (commit P old s) = currentRecipeId s"
  "textInput (commit P old s) = textInput s"
  "transcript (commit P old s) = transcript s"
  "recognitionRef (commit P old s) = recognitionRef s"
  "toasts (commit P old s) = toasts s"
  "sounds (commit P old s) = sounds s"
  "pending (commit P old s) = pending s"
  by (simp_all add: commit_def Let_def)

lemma effects_same_timer:
  "timeRemaining s = timeRemaining old \<Longrightarrow>
     timeRemaining (effects P old s) = timeRemaining s \<and> interval (effects P old s) = interval s
     \<and> activeTimer (effects P old s) = activeTimer s \<and> nextHandle (effects P old s) = nextHandle s"
  by (simp add: effects_def Let_def)

lemma commit_same_timer:
  "timeRemaining s = timeRemaining old \<Longrightarrow>
     timeRemaining (commit P old s) = timeRemaining s \<and> interval (commit P old s) = interval s
     \<and> activeTimer (commit P old s) = activeTimer s \<and> nextHandle (commit P old s) = nextHandle s"
  using effects_same_timer [of s old] by (simp add: commit_def Let_def)

lemma effects_ref:
  "currentStateRef (effects P old s) =
     (if currentState s \<noteq> currentState old then currentState s else currentStateRef s)"
  by (simp add: effects_def Let_def stateRefEffect_def)

lemma commit_id: "commit P s s = s"
  by (simp add: commit_def effects_def Let_def)

lemma timerEffect_stopped:
  "timeRemaining s = None \<Longrightarrow>
     timeRemaining (timerEffect s) = None \<and> interval (timerEffect s) = None"
  by (simp add: timerEffect_def Let_def clearInterval_def split: option.split)

lemma timerEffect_started:
  "timeRemaining s = Some d \<Longrightarrow> 0 < d \<Longrightarrow>
     timeRemaining (timerEffect s) = Some d
     \<and> interval (timerEffect s) = Some (nextHandle s, render_of s)"
  by (simp add: timerEffect_def Let_def)

lemma commit_stopped:
  "timeRemaining s = None \<Longrightarrow> timeRemaining (commit P old s) = None"
  "timeRemaining s = None \<Longrightarrow> timeRemaining old \<noteq> None \<Longrightarrow> interval (commit P old s) = None"
  using timerEffect_stopped [of "parallelStepsEffect (if currentState s \<noteq> currentState old then stateRefEffect s else s)"]
  by (auto simp add: commit_def effects_def Let_def)

lemma commit_started:
  "timeRemaining s = Some d \<Longrightarrow> 0 < d \<Longrightarrow> timeRemaining (commit P old s) = Some d"
  "timeRemaining s = Some d \<Longrightarrow> 0 < d \<Longrightarrow> timeRemaining old \<noteq> Some d \<Longrightarrow> interval (commit P old s) \<noteq> None"
  using timerEffect_started [of "parallelStepsEffect (if currentState s \<noteq> currentState old then stateRefEffect s else s)" d]
  by (auto simp add: commit_def effects_def Let_def)

section \<open>Submitting while a request is outstanding\<close>

lemma handleVoiceInput_fields:
  "messages (handleVoiceInput r t stamp s) = messages s @ [messageOf (user, t, None, None, stamp)]"
  "pending (handleVoiceInput r t stamp s) = pending s @ [newRequest Voice r t (currentStateRef s)]"
  "currentState (handleVoiceInput r t stamp s) = currentState s"
  "toasts (handleVoiceInput r t stamp s) = toasts s"
  "timeRemaining (handleVoiceInput r t stamp s) = timeRemaining s"
  "interval (handleVoiceInput r t stamp s) = interval s"
  "isPlaying (handleVoiceInput r t stamp s) = True"
  by (simp_all add: handleVoiceInput_def Let_def addMessage_def messageOf_def)

lemma handleTextSubmit_fields:
  assumes "\<not> blank P (r_textInput r)"
  shows
  "messages (handleTextSubmit P r stamp s) =
     messages s @ [messageOf (user, r_textInput r, None, None, stamp)]"
  "pending (handleTextSubmit P r stamp s) =
     pending s @ [newRequest Text r (r_textInput r) (currentStateRef s)]"
  "currentState (handleTextSubmit P r stamp s) = currentState s"
  "toasts (handleTextSubmit P r stamp s) = toasts s"
  "timeRemaining (handleTextSubmit P r stamp s) = timeRemaining s"
  "interval (handleTextSubmit P r stamp s) = interval s"
  "isPlaying (handleTextSubmit P r stamp s) = True"
  using assms by (simp_all add: handleTextSubmit_def Let_def addMessage_def messageOf_def)

text \<open>
  Claim C2, as amended. The code has no in-flight guard and no \<open>RequestInFlight\<close> error:
  a submit is accepted whatever requests are outstanding. A recognised utterance
  (\<open>handleVoiceInput\<close>), and a typed text that \<open>trim\<close> does not empty
  (\<open>handleTextSubmit\<close>), append the user's message to the log and add one more
  outstanding request to those already there, leave the conversation state alone and
  raise no notification; a text that \<open>trim\<close> empties is ignored, whatever white space
  the platform's \<open>trim\<close> strips. So any number of requests can be outstanding at once.
\<close>

theorem C2_submit_while_pending_is_accepted:
  "messages (dispatch P (OnResult t stamp) s) =
      messages s @ [messageOf (user, t, None, None, stamp)]
   \<and> pending (dispatch P (OnResult t stamp) s) =
      pending s @ [newRequest Voice (firstRender (initialRecipeId s)) t (currentStateRef s)]
   \<and> currentState (dispatch P (OnResult t stamp) s) = currentState s
   \<and> toasts (dispatch P (OnResult t stamp) s) = toasts s
   \<and> (\<not> blank P (textInput s) \<longrightarrow>
         messages (dispatch P (SubmitText stamp) s) =
           messages s @ [messageOf (user, textInput s, None, None, stamp)]
       \<and> pending (dispatch P (SubmitText stamp) s) =
           pending s @ [newRequest Text (render_of s) (textInput s) (currentStateRef s)]
       \<and> currentState (dispatch P (SubmitText stamp) s) = currentState s
       \<and> toasts (dispatch P (SubmitText stamp) s) = toasts s)
   \<and> (blank P (textInput s) \<longrightarrow> dispatch P (SubmitText stamp) s = s)"
proof -
  have r: "r_textInput (render_of s) = textInput s"
    by (simp add: render_of_def)
  have voice:
    "messages (dispatch P (OnResult t stamp) s) =
        messages s @ [messageOf (user, t, None, None, stamp)]
     \<and> pending (dispatch P (OnResult t stamp) s) =
        pending s @ [newRequest Voice (firstRender (initialRecipeId s)) t (currentStateRef s)]
     \<and> currentState (dispatch P (OnResult t stamp) s) = currentState s
     \<and> toasts (dispatch P (OnResult t stamp) s) = toasts s"
    by (simp add: dispatch_def handleVoiceInput_fields)
  have tcase: "messages (dispatch P (SubmitText stamp) s) =
           messages s @ [messageOf (user, textInput s, None, None, stamp)]
       \<and> pending (dispatch P (SubmitText stamp) s) =
           pending s @ [newRequest Text (render_of s) (textInput s) (currentStateRef s)]
       \<and> currentState (dispatch P (SubmitText stamp) s) = currentState s
       \<and> toasts (dispatch P (SubmitText stamp) s) = toasts s"
    if "\<not> blank P (textInput s)"
    using that r by (simp add: dispatch_def handleTextSubmit_fields)
  have none: "dispatch P (SubmitText stamp) s = s" if "blank P (textInput s)"
    using that r by (simp add: dispatch_def handleTextSubmit_def commit_id)
  show ?thesis using voice tcase none by blast
qed

text \<open>
  The theorem at a state with the opening request outstanding: a typed text is sent as a
  second request, and a blank text changes nothing.
\<close>

theorem C2_witness:
  "pending typed \<noteq> [] \<and> \<not> blank P0 (textInput typed)
   \<and> pending (dispatch P0 (SubmitText (''m1'', 1)) typed) =
       pending typed @ [newRequest Text (render_of typed) (textInput typed) (currentStateRef typed)]
   \<and> blank P0 (textInput session) \<and> dispatch P0 (SubmitText (''m1'', 1)) session = session"
  using C2_submit_while_pending_is_accepted [of P0 "''start''" "(''m1'', 1)" typed]
        C2_submit_while_pending_is_accepted [of P0 "''start''" "(''m1'', 1)" session]
  by code_simp

text \<open>
  Claim C2 as stated is false: the user types a text and submits it twice while the
  opening request and then also the first submit are unresolved. Neither submit is
  rejected, both messages enter the log, three requests are outstanding and nothing is
  notified.
\<close>

theorem C2_counterexample:
  "map kind (pending submitted) = [Summary, Text]
   \<and> map content (messages submitted) = [''add salt'']
   \<and> map content (messages submittedTwice) = [''add salt'', ''add salt'']
   \<and> map kind (pending submittedTwice) = [Summary, Text, Text]
   \<and> toasts submittedTwice = []"
  by code_simp

section \<open>A request that fails\<close>

lemma settle_last:
  "pending s = qs @ [q] \<Longrightarrow>
   settle P (length qs) out stamp s =
     (case kind q of
        Summary \<Rightarrow> getRecipeSummary_settled P (req_render q) out stamp (s\<lparr>pending := qs\<rparr>)
      | Voice \<Rightarrow> handleVoiceInput_settled P (req_render q) out stamp (s\<lparr>pending := qs\<rparr>)
      | Text \<Rightarrow> handleTextSubmit_settled P (req_render q) out stamp (s\<lparr>pending := qs\<rparr>))"
  by (simp add: settle_def Let_def)

lemma rejected_voice:
  "handleVoiceInput_settled P r Rejected stamp s =
     (toast ''Error'' ''Failed to process voice input. Please try again.'' ''error'' s)
       \<lparr>isPlaying := False\<rparr>"
  by (simp add: handleVoiceInput_settled_def voiceTry_def)

lemma rejected_text:
  "handleTextSubmit_settled P r Rejected stamp s =
     (toast ''Error'' ''Failed to process text input. Please try again.'' ''error'' s)
       \<lparr>isPlaying := False\<rparr>"
  by (simp add: handleTextSubmit_settled_def textTry_def)

lemma toasts_toast: "toasts (toast ''Error'' de ''error'' s) = toasts s @ [errorToast de]"
  by (simp add: toast_def errorToast_def)

lemma voice_turn_fails:
  assumes s1: "s1 = dispatch P (OnResult t stamp) s"
    and s2: "s2 = dispatch P (Settle (length (pending s)) Rejected stamp') s1"
  shows "messages s2 = messages s @ [messageOf (user, t, None, None, stamp)]
     \<and> toasts s2 = toasts s @ [errorToast ''Failed to process voice input. Please try again.'']
     \<and> currentState s2 = currentState s \<and> timeRemaining s2 = timeRemaining s
     \<and> interval s2 = interval s \<and> pending s2 = pending s \<and> \<not> isPlaying s2"
proof -
  let ?q = "newRequest Voice (firstRender (initialRecipeId s)) t (currentStateRef s)"
  let ?h = "handleVoiceInput (firstRender (initialRecipeId s)) t stamp (s\<lparr>transcript := t\<rparr>)"
  have a: "s1 = commit P s ?h"
    by (simp add: s1 dispatch_def)
  have p1: "pending s1 = pending s @ [?q]"
    by (simp add: a handleVoiceInput_fields)
  have t1: "timeRemaining s1 = timeRemaining s \<and> interval s1 = interval s"
    using commit_same_timer [of ?h s] by (simp add: a handleVoiceInput_fields)
  have m1: "messages s1 = messages s @ [messageOf (user, t, None, None, stamp)]"
    by (simp add: a handleVoiceInput_fields)
  have f1: "toasts s1 = toasts s \<and> currentState s1 = currentState s"
    by (simp add: a handleVoiceInput_fields)
  let ?k = "(toast ''Error'' ''Failed to process voice input. Please try again.'' ''error''
              (s1\<lparr>pending := pending s\<rparr>))\<lparr>isPlaying := False\<rparr>"
  have b: "s2 = commit P s1 ?k"
    using settle_last [OF p1, of P Rejected stamp']
    by (simp add: s2 dispatch_def rejected_voice newRequest_def)
  have t2: "timeRemaining s2 = timeRemaining s1 \<and> interval s2 = interval s1"
    using commit_same_timer [of ?k s1] by (simp add: b)
  show ?thesis
    using t1 t2 m1 f1 by (simp add: b toasts_toast)
qed

lemma text_turn_fails:
  assumes nb: "\<not> blank P (textInput s)"
    and s1: "s1 = dispatch P (SubmitText stamp) s"
    and s2: "s2 = dispatch P (Settle (length (pending s)) Rejected stamp') s1"
  shows "messages s2 = messages s @ [messageOf (user, textInput s, None, None, stamp)]
     \<and> toasts s2 = toasts s @ [errorToast ''Failed to process text input. Please try again.'']
     \<and> currentState s2 = currentState s \<and> timeRemaining s2 = timeRemaining s
     \<and> interval s2 = interval s \<and> pending s2 = pending s \<and> \<not> isPlaying s2"
proof -
  let ?q = "newRequest Text (render_of s) (textInput s) (currentStateRef s)"
  let ?h = "handleTextSubmit P (render_of s) stamp s"
  have r: "r_textInput (render_of s) = textInput s"
    by (simp add: render_of_def)
  have nb': "\<not> blank P (r_textInput (render_of s))"
    using nb r by simp
  have a: "s1 = commit P s ?h"
    by (simp add: s1 dispatch_def)
  have p1: "pending s1 = pending s @ [?q]"
    using r by (simp add: a handleTextSubmit_fields [OF nb'])
  have t1: "timeRemaining s1 = timeRemaining s \<and> interval s1 = interval s"
    using commit_same_timer [of ?h s] by (simp add: a handleTextSubmit_fields [OF nb'])
  have m1: "messages s1 = messages s @ [messageOf (user, textInput s, None, None, stamp)]"
    using r by (simp add: a handleTextSubmit_fields [OF nb'])
  have f1: "toasts s1 = toasts s \<and> currentState s1 = currentState s"
    by (simp add: a handleTextSubmit_fields [OF nb'])
  let ?k = "(toast ''Error'' ''Failed to process text input. Please try again.'' ''error''
              (s1\<lparr>pending := pending s\<rparr>))\<lparr>isPlaying := False\<rparr>"
  have b: "s2 = commit P s1 ?k"
    using settle_last [OF p1, of P Rejected stamp']
    by (simp add: s2 dispatch_def rejected_text newRequest_def)
  have t2: "timeRemaining s2 = timeRemaining s1 \<and> interval s2 = interval s1"
    using commit_same_timer [of ?k s1] by (simp add: b)
  show ?thesis
    using t1 t2 m1 f1 by (simp add: b toasts_toast)
qed

text \<open>
  Claim C3, as amended. When the request of a submit fails, an error notification is
  surfaced, and the conversation state, the remaining time and the running interval of
  the timer and the outstanding requests are what they were before the submit; the
  playing flag is cleared. The message log is not what it was: the user's message, which
  is appended before the request is sent, stays in the log. This holds for a recognised
  utterance and for a typed text that \<open>trim\<close> does not empty.
\<close>

theorem C3_request_failure_keeps_state_and_timer:
  "(let s1 = dispatch P (OnResult t stamp) s;
        s2 = dispatch P (Settle (length (pending s)) Rejected stamp') s1
    in messages s2 = messages s @ [messageOf (user, t, None, None, stamp)]
       \<and> toasts s2 = toasts s @ [errorToast ''Failed to process voice input. Please try again.'']
       \<and> currentState s2 = currentState s \<and> timeRemaining s2 = timeRemaining s
       \<and> interval s2 = interval s \<and> pending s2 = pending s \<and> \<not> isPlaying s2)
   \<and> (\<not> blank P (textInput s) \<longrightarrow>
        (let s1 = dispatch P (SubmitText stamp) s;
             s2 = dispatch P (Settle (length (pending s)) Rejected stamp') s1
         in messages s2 = messages s @ [messageOf (user, textInput s, None, None, stamp)]
            \<and> toasts s2 = toasts s @ [errorToast ''Failed to process text input. Please try again.'']
            \<and> currentState s2 = currentState s \<and> timeRemaining s2 = timeRemaining s
            \<and> interval s2 = interval s \<and> pending s2 = pending s \<and> \<not> isPlaying s2))"
  by (simp add: Let_def voice_turn_fails [OF refl refl] text_turn_fails [OF _ refl refl])

text \<open>The theorem at a typed text whose request is rejected.\<close>

theorem C3_witness:
  "\<not> blank P0 (textInput typed)
   \<and> messages (dispatch P0 (Settle (length (pending typed)) Rejected (''m2'', 2))
                 (dispatch P0 (SubmitText (''m1'', 1)) typed))
       = messages typed @ [messageOf (user, textInput typed, None, None, (''m1'', 1))]
   \<and> currentState (dispatch P0 (Settle (length (pending typed)) Rejected (''m2'', 2))
                 (dispatch P0 (SubmitText (''m1'', 1)) typed))
       = currentState typed
   \<and> timeRemaining (dispatch P0 (Settle (length (pending typed)) Rejected (''m2'', 2))
                 (dispatch P0 (SubmitText (''m1'', 1)) typed))
       = timeRemaining typed"
  using C3_request_failure_keeps_state_and_timer
          [of P0 "''start''" "(''m1'', 1)" typed "(''m2'', 2)"]
  by code_simp

text \<open>
  Claim C3 as stated is false: after a typed text whose request is rejected, the log,
  empty before the submit, holds the user's message.
\<close>

theorem C3_counterexample:
  "messages typed = []
   \<and> map content (messages submitFailed) = [''add salt'']
   \<and> messages submitFailed \<noteq> messages typed
   \<and> map description (toasts submitFailed)
       = [''Failed to process text input. Please try again.'']"
  by code_simp

section \<open>A response of the dialogue collaborator\<close>

lemma timerOfHeader_unparsable:
  "tj \<noteq> [] \<Longrightarrow> parseTimerData P tj = Inl e \<Longrightarrow> timerOfHeader w P (Some tj) s = (None, s)"
  by (simp add: timerOfHeader_def)

lemma timerOfHeader_parsed:
  "tj \<noteq> [] \<Longrightarrow> parseTimerData P tj = Inr j \<Longrightarrow>
   timerOfHeader w P (Some tj) s =
     (Some (timerOfJson w j), s\<lparr>timeRemaining := remainingOf (j_duration j)\<rparr>)"
  by (simp add: timerOfHeader_def timerOfJson_def remainingOf_def Let_def split: jsnum.split)

lemma applyResponse_steps:
  "timerOfHeader w P (x_timer_data resp) (withRecipe resp s) = (tm, s2) \<Longrightarrow>
   applyResponse w P r resp stamp s =
     playAudioResponse r
       (withNextState resp (currentStateRef s) (withAssistant P resp tm stamp s2))"
  by (simp add: applyResponse_def Let_def withRecipe_def withNextState_def withAssistant_def)

lemma messages_withAssistant:
  "responseTextOf P resp = Some txt \<Longrightarrow> txt \<noteq> [] \<Longrightarrow>
   messages (withAssistant P resp tm stamp s) =
     messages s @ [messageOf (assistant, txt, x_next_state resp, tm, stamp)]"
  by (simp add: withAssistant_def)

lemma settle_at:
  assumes "i < length (pending s)"
  shows "kind (pending s ! i) = Voice \<Longrightarrow>
           settle P i out stamp s =
             handleVoiceInput_settled P (req_render (pending s ! i)) out stamp
               (s\<lparr>pending := take i (pending s) @ drop (Suc i) (pending s)\<rparr>)"
    and "kind (pending s ! i) = Text \<Longrightarrow>
           settle P i out stamp s =
             handleTextSubmit_settled P (req_render (pending s ! i)) out stamp
               (s\<lparr>pending := take i (pending s) @ drop (Suc i) (pending s)\<rparr>)"
  using assms by (simp_all add: settle_def Let_def)

text \<open>A response to a voice or text request: the state the handler leaves, before the effects.\<close>

lemma responded_turn:
  assumes i: "i < length (pending s)" and k: "kind (pending s ! i) \<noteq> Summary"
  obtains r h where
    "dispatch P (Settle i (Responded resp) stamp) s = commit P s h"
    "h = applyResponse True P r resp stamp
           (s\<lparr>pending := take i (pending s) @ drop (Suc i) (pending s)\<rparr>)
     \<or> h = (applyResponse False P r resp stamp
           (s\<lparr>pending := take i (pending s) @ drop (Suc i) (pending s)\<rparr>))\<lparr>textInput := []\<rparr>"
proof (cases "kind (pending s ! i)")
  case Summary
  with k show ?thesis by simp
next
  case Voice
  show ?thesis
    by (rule that [of "applyResponse True P (req_render (pending s ! i)) resp stamp
           (s\<lparr>pending := take i (pending s) @ drop (Suc i) (pending s)\<rparr>)" "req_render (pending s ! i)"])
      (simp_all add: dispatch_def settle_at(1) [OF i Voice] handleVoiceInput_settled_def voiceTry_def)
next
  case Text
  show ?thesis
    by (rule that [of "(applyResponse False P (req_render (pending s ! i)) resp stamp
           (s\<lparr>pending := take i (pending s) @ drop (Suc i) (pending s)\<rparr>))\<lparr>textInput := []\<rparr>" "req_render (pending s ! i)"])
      (simp_all add: dispatch_def settle_at(2) [OF i Text] handleTextSubmit_settled_def textTry_def)
qed


lemma applyResponse_unparsable:
  assumes "x_timer_data resp = Some tj" and "tj \<noteq> []" and "parseTimerData P tj = Inl e"
  shows "applyResponse w P r resp stamp s =
           playAudioResponse r
             (withNextState resp (currentStateRef s)
                (withAssistant P resp None stamp (withRecipe resp s)))"
  using assms by (simp add: applyResponse_steps timerOfHeader_unparsable)

lemma applyResponse_parsed:
  assumes "x_timer_data resp = Some tj" and "tj \<noteq> []" and "parseTimerData P tj = Inr j"
  shows "applyResponse w P r resp stamp s =
           playAudioResponse r
             (withNextState resp (currentStateRef s)
                (withAssistant P resp (Some (timerOfJson w j)) stamp
                   ((withRecipe resp s)\<lparr>timeRemaining := remainingOf (j_duration j)\<rparr>)))"
  using assms by (simp add: applyResponse_steps timerOfHeader_parsed)

lemma isPlaying_playAudioResponse [simp]: "isPlaying (playAudioResponse r s)"
  by (simp add: playAudioResponse_def Let_def)

lemma tick_idle: "timeRemaining s = None \<Longrightarrow> tick th s = s"
  by (simp add: tick_def split: option.split prod.split)

lemma stepStatusesEffect_last:
  assumes "messages s = ms @ [m]" and "timer m = Some t" and "step_statuses t = None"
  shows "stepStatuses (stepStatusesEffect P s) =
           AList.update (keyOf P (step t)) ''in_progress'' (stepStatuses s)"
  using assms by (simp add: stepStatusesEffect_def)

lemma effects_stepStatuses_same:
  "messages s = messages old \<Longrightarrow> stepStatuses (effects P old s) = stepStatuses s"
  by (simp add: effects_def Let_def)

lemma effects_stepStatuses_last:
  assumes "messages s = messages old @ [m]" and "timer m = Some t" and "step_statuses t = None"
  shows "stepStatuses (effects P old s) =
           AList.update (keyOf P (step t)) ''in_progress'' (stepStatuses s)"
proof -
  let ?s1 = "if currentState s \<noteq> currentState old then stateRefEffect s else s"
  let ?s2 = "parallelStepsEffect ?s1"
  let ?s3 = "if timeRemaining s \<noteq> timeRemaining old then timerEffect ?s2 else ?s2"
  have m3: "messages ?s3 = messages old @ [m]" and st3: "stepStatuses ?s3 = stepStatuses s"
    using assms(1) by simp_all
  have "effects P old s = stepStatusesEffect P ?s3"
    using assms(1) by (simp add: effects_def Let_def)
  then show ?thesis
    using stepStatusesEffect_last [OF m3 assms(2) assms(3)] st3 by simp
qed

lemma commit_stepStatuses_last:
  assumes "messages s = messages old @ [m]" and "timer m = Some t" and "step_statuses t = None"
  shows "stepStatuses (commit P old s) =
           AList.update (keyOf P (step t)) ''in_progress'' (stepStatuses s)"
  using effects_stepStatuses_last [OF assms]
    effects_stepStatuses_same [of "effects P old s" s]
  by (simp add: commit_def Let_def)

lemma responded_fields_unparsable:
  assumes h: "h = applyResponse True P r resp stamp s0
              \<or> h = (applyResponse False P r resp stamp s0)\<lparr>textInput := []\<rparr>"
    and t: "x_timer_data resp = Some tj" "tj \<noteq> []" "parseTimerData P tj = Inl e"
    and x: "responseTextOf P resp = Some txt" "txt \<noteq> []"
  shows "messages h = messages s0 @ [messageOf (assistant, txt, x_next_state resp, None, stamp)]"
    and "timeRemaining h = timeRemaining s0" and "interval h = interval s0"
    and "activeTimer h = activeTimer s0" and "toasts h = toasts s0" and "isPlaying h"
  using h x by (auto simp add: applyResponse_unparsable [OF t] messages_withAssistant)

lemma responded_fields_parsed:
  assumes h: "h = applyResponse True P r resp stamp s0
              \<or> h = (applyResponse False P r resp stamp s0)\<lparr>textInput := []\<rparr>"
    and t: "x_timer_data resp = Some tj" "tj \<noteq> []" "parseTimerData P tj = Inr j"
  shows "timeRemaining h = remainingOf (j_duration j)"
    and "toasts h = toasts s0" and "sounds h = sounds s0" and "stepStatuses h = stepStatuses s0"
  using h by (auto simp add: applyResponse_parsed [OF t])

lemma responded_message_parsed:
  assumes h: "h = applyResponse True P r resp stamp s0
              \<or> h = (applyResponse False P r resp stamp s0)\<lparr>textInput := []\<rparr>"
    and t: "x_timer_data resp = Some tj" "tj \<noteq> []" "parseTimerData P tj = Inr j"
    and x: "responseTextOf P resp = Some txt" "txt \<noteq> []"
  obtains w where
    "messages h =
       messages s0 @ [messageOf (assistant, txt, x_next_state resp, Some (timerOfJson w j), stamp)]"
  using h x by (auto simp add: applyResponse_parsed [OF t] messages_withAssistant)

text \<open>
  \<open>JSON.parse(decodeBase64Text(header))\<close> throws in two cases: the header decodes and
  the decoded text does not parse, or the header does not decode and the header itself,
  which \<open>decodeBase64Text\<close> then returns, does not parse.
\<close>

lemma parseTimerData_throws:
  "(parseTimerData P tj = Inl ParseError) =
     ((\<exists>d. atob P tj = Some d \<and> parseTimer P d = None)
      \<or> (atob P tj = None \<and> parseTimer P tj = None))"
  by (auto simp add: parseTimerData_def decodeBase64Text_def split: option.splits)

text \<open>
  Claim C9, as amended. A response to a voice or text request carries a response text
  and a timer header that is present and unparsable in this sense: it decodes and the
  decoded text does not parse, or it does not decode and does not parse as it is. Then
  the turn appends the assistant's message with that text and without a timer, leaves
  the remaining time, the interval and its handle as they were, raises no notification
  (the outer \<open>catch\<close> is not entered) and goes on to play the audio. A failed base64
  decode alone does not make the header unparsable.
\<close>

theorem C9_unparsable_timer_data_is_dropped:
  assumes i: "i < length (pending s)" and k: "kind (pending s ! i) \<noteq> Summary"
    and t: "x_timer_data resp = Some tj" "tj \<noteq> []"
    and u: "(\<exists>d. atob P tj = Some d \<and> parseTimer P d = None)
            \<or> (atob P tj = None \<and> parseTimer P tj = None)"
    and x: "responseTextOf P resp = Some txt" "txt \<noteq> []"
  shows "let s' = dispatch P (Settle i (Responded resp) stamp) s
         in messages s' =
              messages s @ [messageOf (assistant, txt, x_next_state resp, None, stamp)]
            \<and> timeRemaining s' = timeRemaining s \<and> interval s' = interval s
            \<and> activeTimer s' = activeTimer s \<and> toasts s' = toasts s \<and> isPlaying s'"
proof -
  have t3: "parseTimerData P tj = Inl ParseError"
    using u by (simp add: parseTimerData_throws)
  let ?s0 = "s\<lparr>pending := take i (pending s) @ drop (Suc i) (pending s)\<rparr>"
  obtain r' h where d: "dispatch P (Settle i (Responded resp) stamp) s = commit P s h"
    and h: "h = applyResponse True P r' resp stamp ?s0
            \<or> h = (applyResponse False P r' resp stamp ?s0)\<lparr>textInput := []\<rparr>"
    using responded_turn [OF i k] by blast
  note f = responded_fields_unparsable [OF h t t3 x]
  have tr: "timeRemaining h = timeRemaining s"
    using f(2) by simp
  have "messages (commit P s h) =
          messages s @ [messageOf (assistant, txt, x_next_state resp, None, stamp)]"
    using f(1) by simp
  moreover have "timeRemaining (commit P s h) = timeRemaining s \<and> interval (commit P s h) = interval s
      \<and> activeTimer (commit P s h) = activeTimer s"
    using commit_same_timer [OF tr] f(2,3,4) by simp
  moreover have "toasts (commit P s h) = toasts s \<and> isPlaying (commit P s h)"
    using f(5,6) by simp
  ultimately show ?thesis
    by (simp add: d Let_def)
qed

text \<open>
  The theorem at a header that is neither base64 nor JSON, and at a header that is the
  base64 of a text that is not JSON.
\<close>

theorem C9_witness:
  "0 < length (pending awaitingAnswer) \<and> kind (pending awaitingAnswer ! 0) \<noteq> Summary
   \<and> atob P0 ''not base64'' = None \<and> parseTimer P0 ''not base64'' = None
   \<and> atob P0 ''b29wcw=='' = Some ''oops'' \<and> parseTimer P0 ''oops'' = None
   \<and> responseTextOf P0 (response cooking ''Timer started'' (Some ''not base64''))
       = Some ''Timer started''
   \<and> messages (dispatch P0 (Settle 0 (respond cooking ''Timer started'' (Some ''not base64''))
                   (''m3'', 3)) awaitingAnswer)
       = messages awaitingAnswer
           @ [messageOf (assistant, ''Timer started'', Some cooking, None, (''m3'', 3))]
   \<and> timeRemaining (dispatch P0 (Settle 0 (respond cooking ''Timer started'' (Some ''not base64''))
                   (''m3'', 3)) awaitingAnswer)
       = timeRemaining awaitingAnswer
   \<and> messages (dispatch P0 (Settle 0 (respond cooking ''Timer started'' (Some ''b29wcw==''))
                   (''m3'', 3)) awaitingAnswer)
       = messages awaitingAnswer
           @ [messageOf (assistant, ''Timer started'', Some cooking, None, (''m3'', 3))]
   \<and> timeRemaining (dispatch P0 (Settle 0 (respond cooking ''Timer started'' (Some ''b29wcw==''))
                   (''m3'', 3)) awaitingAnswer)
       = timeRemaining awaitingAnswer"
proof -
  let ?resp = "response cooking ''Timer started'' (Some ''not base64'')"
  let ?resp2 = "response cooking ''Timer started'' (Some ''b29wcw=='')"
  have i: "0 < length (pending awaitingAnswer)" by code_simp
  have k: "kind (pending awaitingAnswer ! 0) \<noteq> Summary" by code_simp
  have t1: "x_timer_data ?resp = Some ''not base64''" by code_simp
  have t2: "''not base64'' \<noteq> []" by simp
  have a1: "atob P0 ''not base64'' = None \<and> parseTimer P0 ''not base64'' = None" by code_simp
  have u1: "(\<exists>d. atob P0 ''not base64'' = Some d \<and> parseTimer P0 d = None)
            \<or> (atob P0 ''not base64'' = None \<and> parseTimer P0 ''not base64'' = None)"
    using a1 by simp
  have x1: "responseTextOf P0 ?resp = Some ''Timer started''" by code_simp
  have x2: "''Timer started'' \<noteq> []" by simp
  have n: "x_next_state ?resp = Some cooking" by (simp add: response_def)
  have v1: "x_timer_data ?resp2 = Some ''b29wcw==''" by code_simp
  have v2: "''b29wcw=='' \<noteq> []" by simp
  have a2: "atob P0 ''b29wcw=='' = Some ''oops'' \<and> parseTimer P0 ''oops'' = None" by code_simp
  have u2: "(\<exists>d. atob P0 ''b29wcw=='' = Some d \<and> parseTimer P0 d = None)
            \<or> (atob P0 ''b29wcw=='' = None \<and> parseTimer P0 ''b29wcw=='' = None)"
    using a2 by simp
  have y1: "responseTextOf P0 ?resp2 = Some ''Timer started''" by code_simp
  have n2: "x_next_state ?resp2 = Some cooking" by (simp add: response_def)
  note c = C9_unparsable_timer_data_is_dropped [OF i k t1 t2 u1 x1 x2, of "(''m3'', 3)"]
  note c2 = C9_unparsable_timer_data_is_dropped [OF i k v1 v2 u2 y1 x2, of "(''m3'', 3)"]
  show ?thesis
    using i k a1 a2 x1 c c2 n n2 by (simp add: Let_def respond_def)
qed

text \<open>
  Claim C9 as stated is false. The header is the JSON of a timer as it is: the base64
  decode fails, \<open>decodeBase64Text\<close> returns the header, and \<open>JSON.parse\<close> accepts it. The
  assistant's message carries the timer and a countdown of three seconds is started.
\<close>

theorem C9_counterexample:
  "atob P0 jsonA = None
   \<and> parseTimer P0 (decodeBase64Text P0 jsonA) = Some timerA
   \<and> timeRemaining awaitingAnswer = None
   \<and> timeRemaining rawJsonAnswered = Some 3
   \<and> interval rawJsonAnswered \<noteq> None
   \<and> map_option duration (timer (last (messages rawJsonAnswered))) = Some (Num 3)"
  by code_simp

text \<open>
  Claim C10. A response to a voice or text request carries a timer header that parses.
  Then a countdown exists afterwards exactly when the parsed duration is a number
  greater than 0; in that case the remaining time is the duration (and a new interval
  is created unless the remaining time already had that value). Otherwise (a duration
  of 0 or less, or \<open>NaN\<close>) the remaining time is \<open>null\<close>, the interval of a running
  countdown is cleared, neither the completion notification nor its sound is produced,
  and a tick changes nothing.
\<close>

theorem C10_countdown_starts_iff_duration_positive:
  assumes i: "i < length (pending s)" and k: "kind (pending s ! i) \<noteq> Summary"
    and t: "x_timer_data resp = Some tj" "tj \<noteq> []" "parseTimerData P tj = Inr j"
  shows "let s' = dispatch P (Settle i (Responded resp) stamp) s
         in (timeRemaining s' \<noteq> None) = (\<exists>d. j_duration j = Num d \<and> 0 < d)
            \<and> (\<forall>d. j_duration j = Num d \<and> 0 < d \<longrightarrow>
                  timeRemaining s' = Some d
                  \<and> (timeRemaining s \<noteq> Some d \<longrightarrow> interval s' \<noteq> None))
            \<and> ((\<nexists>d. j_duration j = Num d \<and> 0 < d) \<longrightarrow>
                  timeRemaining s' = None
                  \<and> (timeRemaining s \<noteq> None \<longrightarrow> interval s' = None)
                  \<and> toasts s' = toasts s \<and> sounds s' = sounds s
                  \<and> tick th s' = s')"
proof -
  let ?s0 = "s\<lparr>pending := take i (pending s) @ drop (Suc i) (pending s)\<rparr>"
  obtain r' h where d: "dispatch P (Settle i (Responded resp) stamp) s = commit P s h"
    and h: "h = applyResponse True P r' resp stamp ?s0
            \<or> h = (applyResponse False P r' resp stamp ?s0)\<lparr>textInput := []\<rparr>"
    using responded_turn [OF i k] by blast
  note f = responded_fields_parsed [OF h t]
  have fr: "toasts (commit P s h) = toasts s \<and> sounds (commit P s h) = sounds s"
    using f(2,3) by simp
  show ?thesis
  proof (cases "\<exists>d. j_duration j = Num d \<and> 0 < d")
    case True
    then obtain d where dd: "j_duration j = Num d" "0 < d" by blast
    have tr: "timeRemaining h = Some d"
      using f(1) dd by (simp add: remainingOf_def)
    show ?thesis
      using commit_started [OF tr dd(2), where old = s] dd by (simp add: d Let_def)
  next
    case False
    have tr: "timeRemaining h = None"
      using f(1) False by (cases "j_duration j") (auto simp add: remainingOf_def)
    have n: "timeRemaining (commit P s h) = None"
      using commit_stopped(1) [OF tr] .
    show ?thesis
      using False n commit_stopped(2) [OF tr, of s] fr tick_idle [OF n]
      by (simp add: d Let_def)
  qed
qed

text \<open>
  The theorem at a header with duration 3, which starts a countdown, and at a header with
  duration 0 sent while that countdown runs, which cancels it.
\<close>

theorem C10_witness:
  "0 < length (pending awaitingAnswer) \<and> kind (pending awaitingAnswer ! 0) \<noteq> Summary
   \<and> x_timer_data (response cooking ''Timer started'' (Some headerA)) = Some headerA
   \<and> parseTimerData P0 headerA = Inr timerA \<and> j_duration timerA = Num 3
   \<and> timeRemaining (dispatch P0 (Settle 0 (respond cooking ''Timer started'' (Some headerA))
                       (''m3'', 3)) awaitingAnswer) = Some 3
   \<and> parseTimerData P0 headerC = Inr timerC \<and> j_duration timerC = Num 0
   \<and> timeRemaining stopRequested = Some 3
   \<and> timeRemaining (dispatch P0 (Settle 0 (respond cooking ''Timer stopped'' (Some headerC))
                       (''m5'', 5))
                       stopRequested) = None
   \<and> interval (dispatch P0 (Settle 0 (respond cooking ''Timer stopped'' (Some headerC))
                       (''m5'', 5))
                       stopRequested) = None"
proof -
  let ?resp = "response cooking ''Timer started'' (Some headerA)"
  let ?resp2 = "response cooking ''Timer stopped'' (Some headerC)"
  let ?s2 = "stopRequested"
  have i: "0 < length (pending awaitingAnswer)" by code_simp
  have k: "kind (pending awaitingAnswer ! 0) \<noteq> Summary" by code_simp
  have t1: "x_timer_data ?resp = Some headerA" by code_simp
  have t2: "headerA \<noteq> []" by code_simp
  have t3: "parseTimerData P0 headerA = Inr timerA" by code_simp
  have d3: "j_duration timerA = Num 3" by (simp add: timerA_def)
  have i': "0 < length (pending ?s2)" by code_simp
  have k': "kind (pending ?s2 ! 0) \<noteq> Summary" by code_simp
  have u1: "x_timer_data ?resp2 = Some headerC" by code_simp
  have u2: "headerC \<noteq> []" by code_simp
  have u3: "parseTimerData P0 headerC = Inr timerC" by code_simp
  have d0: "j_duration timerC = Num 0" by (simp add: timerC_def)
  have run2: "timeRemaining ?s2 = Some 3" by code_simp
  have a: "timeRemaining (dispatch P0 (Settle 0 (Responded ?resp) (''m3'', 3)) awaitingAnswer) = Some 3"
    using C10_countdown_starts_iff_duration_positive [OF i k t1 t2 t3, of "(''m3'', 3)" False] d3
    by (simp add: Let_def)
  have b: "timeRemaining (dispatch P0 (Settle 0 (Responded ?resp2) (''m5'', 5)) ?s2) = None
           \<and> interval (dispatch P0 (Settle 0 (Responded ?resp2) (''m5'', 5)) ?s2) = None"
    using C10_countdown_starts_iff_duration_positive [OF i' k' u1 u2 u3, of "(''m5'', 5)" False] d0 run2
    by (simp add: Let_def)
  show ?thesis
    using i k t1 t3 d3 u3 d0 run2 a b by (simp add: respond_def)
qed

section \<open>Step statuses\<close>

lemma statusOf_update:
  "stepStatuses s' = AList.update k ''in_progress'' (stepStatuses s) \<Longrightarrow>
   statusOf s' k = ''in_progress'' \<and> (\<forall>k'. k' \<noteq> k \<longrightarrow> statusOf s' k' = statusOf s k')"
  by (simp add: statusOf_def update_conv')

text \<open>
  Claim C4, as amended. When a response to a voice or text request carries a response
  text and a timer header that parses, with step \<open>N\<close>, the status under the property
  key of \<open>N\<close> (the decimal digits of a safe integer, what the platform prints for any
  other number) is \<open>in_progress\<close> afterwards whatever it was before, \<open>completed\<close>
  included, and the status under every other key is what it was. The code has no order
  on statuses and refuses no regression.
\<close>

theorem C4_timer_step_is_set_in_progress:
  assumes i: "i < length (pending s)" and k: "kind (pending s ! i) \<noteq> Summary"
    and t: "x_timer_data resp = Some tj" "tj \<noteq> []" "parseTimerData P tj = Inr j"
    and x: "responseTextOf P resp = Some txt" "txt \<noteq> []"
  shows "let s' = dispatch P (Settle i (Responded resp) stamp) s
         in statusOf s' (keyOf P (j_step j)) = ''in_progress''
            \<and> (\<forall>k. k \<noteq> keyOf P (j_step j) \<longrightarrow> statusOf s' k = statusOf s k)"
proof -
  let ?s0 = "s\<lparr>pending := take i (pending s) @ drop (Suc i) (pending s)\<rparr>"
  obtain r' h where d: "dispatch P (Settle i (Responded resp) stamp) s = commit P s h"
    and h: "h = applyResponse True P r' resp stamp ?s0
            \<or> h = (applyResponse False P r' resp stamp ?s0)\<lparr>textInput := []\<rparr>"
    using responded_turn [OF i k] by blast
  obtain w where m: "messages h =
       messages ?s0 @ [messageOf (assistant, txt, x_next_state resp, Some (timerOfJson w j), stamp)]"
    using responded_message_parsed [OF h t x] by blast
  have m': "messages h =
       messages s @ [messageOf (assistant, txt, x_next_state resp, Some (timerOfJson w j), stamp)]"
    using m by simp
  have "stepStatuses (commit P s h) =
          AList.update (keyOf P (step (timerOfJson w j))) ''in_progress'' (stepStatuses h)"
    by (rule commit_stepStatuses_last [OF m']) (simp_all add: messageOf_def timerOfJson_def)
  then have "stepStatuses (commit P s h) =
          AList.update (keyOf P (j_step j)) ''in_progress'' (stepStatuses s)"
    using responded_fields_parsed(4) [OF h t] by (simp add: timerOfJson_def)
  from statusOf_update [OF this] show ?thesis
    by (simp add: d Let_def)
qed

text \<open>The theorem at the timer for step 3 of the session.\<close>

theorem C4_witness:
  "0 < length (pending awaitingAnswer) \<and> kind (pending awaitingAnswer ! 0) \<noteq> Summary
   \<and> x_timer_data (response cooking ''Timer started'' (Some headerA)) = Some headerA
   \<and> parseTimerData P0 headerA = Inr timerA
   \<and> responseTextOf P0 (response cooking ''Timer started'' (Some headerA)) = Some ''Timer started''
   \<and> keyOf P0 (j_step timerA) = ''3''
   \<and> statusOf awaitingAnswer ''3'' = ''not_started''
   \<and> statusOf (dispatch P0 (Settle 0 (respond cooking ''Timer started'' (Some headerA))
                  (''m3'', 3)) awaitingAnswer) ''3'' = ''in_progress''
   \<and> statusOf (dispatch P0 (Settle 0 (respond cooking ''Timer started'' (Some headerA))
                  (''m3'', 3)) awaitingAnswer) ''2'' = statusOf awaitingAnswer ''2''"
proof -
  let ?resp = "response cooking ''Timer started'' (Some headerA)"
  have i: "0 < length (pending awaitingAnswer)" by code_simp
  have k: "kind (pending awaitingAnswer ! 0) \<noteq> Summary" by code_simp
  have t1: "x_timer_data ?resp = Some headerA" by code_simp
  have t2: "headerA \<noteq> []" by code_simp
  have t3: "parseTimerData P0 headerA = Inr timerA" by code_simp
  have x1: "responseTextOf P0 ?resp = Some ''Timer started''" by code_simp
  have x2: "''Timer started'' \<noteq> []" by simp
  have ky: "keyOf P0 (j_step timerA) = ''3''" by code_simp
  have st: "statusOf awaitingAnswer ''3'' = ''not_started''" by code_simp
  note c = C4_timer_step_is_set_in_progress [OF i k t1 t2 t3 x1 x2, of "(''m3'', 3)"]
  have a: "statusOf (dispatch P0 (Settle 0 (Responded ?resp) (''m3'', 3)) awaitingAnswer) ''3''
             = ''in_progress''
           \<and> statusOf (dispatch P0 (Settle 0 (Responded ?resp) (''m3'', 3)) awaitingAnswer) ''2''
             = statusOf awaitingAnswer ''2''"
    using c ky by (simp add: Let_def)
  show ?thesis
    using i k t1 t3 x1 ky st a by (simp add: respond_def)
qed

text \<open>
  Claim C4 as stated is false: the recipe store reports step 3 as \<open>completed\<close>, then a
  timer for step 3 arrives, and the status of step 3 goes back to \<open>in_progress\<close>.
\<close>

theorem C4_counterexample:
  "statusOf stepDone ''3'' = ''completed''
   \<and> map_option step (timer (last (messages stepRestarted))) = Some (Num 3)
   \<and> statusOf stepRestarted ''3'' = ''in_progress''
   \<and> statusRank (statusOf stepRestarted ''3'') < statusRank (statusOf stepDone ''3'')"
  by code_simp

section \<open>Runs of the session\<close>

text \<open>
  Had every closure read the flags of the current render, none of the capture and
  playback operations would make both flags true.
\<close>

lemma exclusion_with_current_render:
  assumes "\<not> (isListening s \<and> isPlaying s)"
    and "isListening s \<longrightarrow> recognitionRef s"
  shows "\<not> (isListening (startListening (render_of s) th s)
             \<and> isPlaying (startListening (render_of s) th s))"
    and "\<not> (isListening (stopListening (render_of s) s)
             \<and> isPlaying (stopListening (render_of s) s))"
    and "\<not> (isListening (playAudioResponse (render_of s) s)
             \<and> isPlaying (playAudioResponse (render_of s) s))"
    and "\<not> (isListening (handleAudioEnd (render_of s) th s)
             \<and> isPlaying (handleAudioEnd (render_of s) th s))"
    and "\<not> (isListening (onerror (render_of s) e th s)
             \<and> isPlaying (onerror (render_of s) e th s))"
    and "\<not> (isListening (onend s) \<and> isPlaying (onend s))"
  using assms
  by (auto simp add: startListening_def stopListening_def playAudioResponse_def
      handleAudioEnd_def onerror_def onend_def render_of_def toast_def Let_def)

text \<open>
  Claim C1 fails on the code. \<open>startListening\<close> and \<open>playAudioResponse\<close> test the constants
  \<open>isListening\<close> and \<open>isPlaying\<close> of the render their closure was created in, not the
  stored flags. First run: the user clicks the listen button while the opening request
  is outstanding; the answer arrives, and \<open>playAudioResponse\<close>, called from the closure
  of the first render, reads \<open>isListening = false\<close>, does not stop the capture and sets
  \<open>isPlaying\<close>. Second run: the narration ends, capture starts, the recogniser delivers
  its result, and \<open>handleVoiceInput\<close> sets \<open>isPlaying\<close> while \<open>isListening\<close> is still
  set. Each run ends with both flags true.
\<close>

theorem C1_capture_and_playback_overlap:
  "isListening earlyClick \<and> isPlaying earlyClick
   \<and> isListening resultDelivered \<and> isPlaying resultDelivered"
  by code_simp

text \<open>The warning of a tick depends on the new remaining time only: it is given at 20.\<close>

lemma tick_warning:
  assumes "interval s = Some (h, r)" and "timeRemaining s = Some prev" and "1 < prev"
  shows "sounds (tick th s) = (if prev = 21 then sounds s @ [''/warning.mp3''] else sounds s)"
  using assms by (simp add: tick_def Let_def playSound_def)



lemma warnings_commit [simp]:
  "warningsPlayed (commit P old s) = warningsPlayed s"
  "warningsShown (commit P old s) = warningsShown s"
  by (simp_all add: warningsPlayed_def warningsShown_def)






text \<open>
  The last tick of a countdown in general: the completion sound is produced once, the
  remaining time is \<open>null\<close>, the interval is cleared and further ticks change
  nothing. When the last message of the log carries parallel tasks, the active parallel
  steps afterwards are the steps of those tasks.
\<close>

lemma tick_last_second:
  assumes "interval s = Some (h, r)" and "timeRemaining s = Some 1"
  shows "timeRemaining (tick th s) = None"
    and "sounds (tick th s) = sounds s @ [''/timer-done.mp3'']"
    and "toasts (tick th s) =
           toasts s @ [\<lparr>title = ''Timer Complete!'', description = ''Your timer has finished.'',
                        status = ''success''\<rparr>]"
    and "messages (tick th s) = messages s"
    and "currentState (tick th s) = currentState s"
  using assms by (simp_all add: tick_def Let_def playSound_def toast_def)

lemma completion_in_general:
  assumes "interval s = Some (h, r)" and "timeRemaining s = Some 1"
  shows "timeRemaining (dispatch P (Tick th) s) = None"
    and "interval (dispatch P (Tick th) s) = None"
    and "sounds (dispatch P (Tick th) s) = sounds s @ [''/timer-done.mp3'']"
    and "tick th' (dispatch P (Tick th) s) = dispatch P (Tick th) s"
proof -
  note t = tick_last_second [OF assms]
  show a: "timeRemaining (dispatch P (Tick th) s) = None"
    using commit_stopped(1) [OF t(1)] by (simp add: dispatch_def)
  show "interval (dispatch P (Tick th) s) = None"
    using commit_stopped(2) [OF t(1), of s] assms(2) by (simp add: dispatch_def)
  show "sounds (dispatch P (Tick th) s) = sounds s @ [''/timer-done.mp3'']"
    using t(2) by (simp add: dispatch_def)
  show "tick th' (dispatch P (Tick th) s) = dispatch P (Tick th) s"
    using tick_idle [OF a] .
qed

lemma completion_keeps_parallel_steps:
  assumes "interval s = Some (h, r)" and "timeRemaining s = Some 1"
    and "messages s = ms @ [m]" and "timer m = Some t" and "parallel_tasks t = Some ts"
  shows "activeParallelSteps (dispatch P (Tick th) s) = map step_number ts"
proof -
  note t = tick_last_second [OF assms(1,2)]
  let ?k = "tick th s"
  have e: "activeParallelSteps (effects P s ?k) = map step_number ts"
    using t(1,4,5) assms by (simp add: effects_def Let_def parallelStepsEffect_def)
  have n: "timeRemaining (effects P s ?k) = None"
    using t(1) assms(2) timerEffect_stopped [of "parallelStepsEffect ?k"]
    by (simp add: effects_def Let_def t(4,5))
  show ?thesis
    using e n t(1) by (simp add: dispatch_def commit_def Let_def)
qed

text \<open>
  Claim C6 fails on the code in one part. Run: the timer of three seconds for step 3,
  whose message lists step 2 as a parallel task, runs out with that message still the
  last of the log. The completion notification and sound are produced once, the
  remaining time is \<open>null\<close> and the interval is gone, but the effect on
  \<open>[messages, timeRemaining]\<close> finds \<open>parallel_tasks\<close> in the last message, takes its
  first branch and sets the active parallel steps to \<open>[2]\<close> again: its clearing branch
  is not reached.
\<close>

theorem C6_parallel_steps_survive_completion:
  "timeRemaining lastSecond = Some 1 \<and> currentState lastSecond = cooking
   \<and> activeParallelSteps lastSecond = [2]
   \<and> map_option parallel_tasks (timer (last (messages lastSecond)))
       = Some (j_parallel_tasks timerA)
   \<and> timeRemaining timerCompleted = None \<and> interval timerCompleted = None
   \<and> map title (toasts timerCompleted) = [''Timer Complete!'']
   \<and> sounds timerCompleted = [''/timer-done.mp3'']
   \<and> messages timerCompleted = messages lastSecond
   \<and> activeParallelSteps timerCompleted = [2]"
  by code_simp

text \<open>
  The end of the audio in general: capture starts whenever the conversation state is not
  \<open>initial_summary\<close> (and the browser has a recogniser), whatever the remaining time.
\<close>

lemma audio_end_ignores_timer:
  "isListening (dispatch P (AudioEnded False) s) =
     (if currentStateRef s \<noteq> initial_summary \<and> recognitionRef s then True else isListening s)"
  "\<not> isPlaying (dispatch P (AudioEnded False) s)"
  by (simp_all add: dispatch_def handleAudioEnd_def startListening_def firstRender_def falsy_def Let_def)

text \<open>
  Claim C7 fails on the code. \<open>handleAudioEnd\<close> is created by the mount effect, so the
  \<open>timeRemaining\<close> it tests is the constant of the first render, \<open>null\<close>, whatever timer
  runs. Run: the conversation is in state \<open>cooking\<close>, the timer of three seconds runs
  and the answer that started it is being played; the audio ends, and capture starts
  although the countdown is running.
\<close>

theorem C7_capture_starts_while_timer_runs:
  "currentStateRef timerStarted = cooking
   \<and> timeRemaining timerStarted = Some 3 \<and> interval timerStarted \<noteq> None
   \<and> isPlaying timerStarted \<and> \<not> isListening timerStarted
   \<and> \<not> isPlaying audioEnded \<and> isListening audioEnded
   \<and> timeRemaining audioEnded = Some 3 \<and> interval audioEnded \<noteq> None"
  by code_simp


end
